theory Spec2Isabelle
  imports Complex_Main "HOL-Library.Sublist" "HOL-Library.Char_ord" "HOL-Library.List_Lexorder"
begin

section \<open>The SwiftShip transformation pipeline (transform.py)\<close>

text \<open>
  The pipeline reads the latest raw delivery and traffic tables, cleans the delivery
  table, classifies the delay, scores the agent, joins the traffic table twice (source
  and destination city), derives four features and writes one CSV artifact.

  A data frame is a list of rows, each row a record of the columns the code reads or
  writes, together with the names of the columns it has. The stages add columns, so
  each stage's row type extends the previous one.
\<close>

subsection \<open>Column values\<close>

text \<open>
  A numeric cell is a float64: not-a-number (the "no value" marker of a numeric column),
  the two infinities, or a finite value. Finite values are real numbers: rounding and
  overflow of finite results are not modelled, and there is no negative zero (every
  zero divisor of this program is a positive zero: it comes from \<open>x + 1\<close>).
\<close>

datatype float64 = NaN | NegInf | PosInf | Fin real

text \<open>Comparison: every comparison with NaN is false.\<close>

fun fl_less :: "float64 \<Rightarrow> float64 \<Rightarrow> bool" where
  "fl_less NaN _ = False"
| "fl_less _ NaN = False"
| "fl_less _ NegInf = False"
| "fl_less NegInf _ = True"
| "fl_less PosInf _ = False"
| "fl_less (Fin x) PosInf = True"
| "fl_less (Fin x) (Fin y) = (x < y)"

fun fl_add :: "float64 \<Rightarrow> float64 \<Rightarrow> float64" where
  "fl_add NaN _ = NaN"
| "fl_add _ NaN = NaN"
| "fl_add PosInf NegInf = NaN"
| "fl_add NegInf PosInf = NaN"
| "fl_add PosInf _ = PosInf"
| "fl_add NegInf _ = NegInf"
| "fl_add (Fin x) PosInf = PosInf"
| "fl_add (Fin x) NegInf = NegInf"
| "fl_add (Fin x) (Fin y) = Fin (x + y)"

text \<open>An infinity with the sign of a non-zero finite factor.\<close>

definition signed_inf :: "real \<Rightarrow> float64" where
  "signed_inf x = (if 0 < x then PosInf else NegInf)"

fun fl_mul :: "float64 \<Rightarrow> float64 \<Rightarrow> float64" where
  "fl_mul NaN _ = NaN"
| "fl_mul _ NaN = NaN"
| "fl_mul (Fin x) (Fin y) = Fin (x * y)"
| "fl_mul (Fin x) PosInf = (if x = 0 then NaN else signed_inf x)"
| "fl_mul (Fin x) NegInf = (if x = 0 then NaN else signed_inf (- x))"
| "fl_mul PosInf (Fin y) = (if y = 0 then NaN else signed_inf y)"
| "fl_mul NegInf (Fin y) = (if y = 0 then NaN else signed_inf (- y))"
| "fl_mul PosInf PosInf = PosInf"
| "fl_mul NegInf NegInf = PosInf"
| "fl_mul PosInf NegInf = NegInf"
| "fl_mul NegInf PosInf = NegInf"

text \<open>
  Division of numeric columns never raises: a finite non-zero value over zero is an
  infinity of the dividend's sign, zero over zero is NaN.
\<close>

fun fl_div :: "float64 \<Rightarrow> float64 \<Rightarrow> float64" where
  "fl_div NaN _ = NaN"
| "fl_div _ NaN = NaN"
| "fl_div (Fin x) (Fin y) =
     (if y = 0 then (if x = 0 then NaN else signed_inf x) else Fin (x / y))"
| "fl_div (Fin x) PosInf = Fin 0"
| "fl_div (Fin x) NegInf = Fin 0"
| "fl_div PosInf (Fin y) = (if y < 0 then NegInf else PosInf)"
| "fl_div NegInf (Fin y) = (if y < 0 then PosInf else NegInf)"
| "fl_div PosInf PosInf = NaN"
| "fl_div PosInf NegInf = NaN"
| "fl_div NegInf PosInf = NaN"
| "fl_div NegInf NegInf = NaN"

definition notnull :: "float64 \<Rightarrow> bool" where
  "notnull x = (x \<noteq> NaN)"

definition fillna :: "float64 \<Rightarrow> float64 \<Rightarrow> float64" where
  "fillna v x = (if x = NaN then v else x)"

text \<open>\<open>Series.replace(a, b)\<close> on a numeric column: cells equal to \<open>a\<close> become \<open>b\<close>.\<close>

definition replace_val :: "real \<Rightarrow> real \<Rightarrow> float64 \<Rightarrow> float64" where
  "replace_val a b x = (if x = Fin a then Fin b else x)"

text \<open>
  A timestamp cell is a number of nanoseconds since the epoch, or NaT. A difference of
  two timestamps is a number of nanoseconds, or NaT.
\<close>

type_synonym datetime = "int option"
type_synonym timedelta = "int option"

abbreviation NaT :: "int option" where
  "NaT \<equiv> None"

fun sub_datetime :: "datetime \<Rightarrow> datetime \<Rightarrow> timedelta" where
  "sub_datetime (Some a) (Some b) = Some (a - b)"
| "sub_datetime _ _ = NaT"

fun total_seconds :: "timedelta \<Rightarrow> float64" where
  "total_seconds None = NaN"
| "total_seconds (Some ns) = Fin (real_of_int ns / 1000000000)"

subsection \<open>Binning (\<open>pd.cut\<close> with explicit bin edges, right-closed)\<close>

text \<open>
  The position of a value among the sorted edges is the number of edges strictly below
  it. A NaN value, a value with no edge strictly below it and a value above every edge
  get no label; any other value gets the label of the bin that ends at the first edge
  not below it.
\<close>

definition searchsorted_left :: "float64 list \<Rightarrow> float64 \<Rightarrow> nat" where
  "searchsorted_left bins x = length (takeWhile (\<lambda>b. fl_less b x) bins)"

definition cut :: "float64 list \<Rightarrow> 'l list \<Rightarrow> float64 \<Rightarrow> 'l option" where
  "cut bins labels x =
     (let ids = searchsorted_left bins x
      in if x = NaN \<or> ids = length bins \<or> ids = 0 then None
         else Some (labels ! (ids - 1)))"

subsection \<open>Tables\<close>

text \<open>
  A raw delivery row, as flattened from the \<open>deliveries\<close> list. The type \<open>'t\<close> is the
  type of the three timestamp cells: the raw JSON value before cleaning, a
  \<open>datetime\<close> after. A city cell is a string or missing.
\<close>

record 't delivery_row =
  shipment_id :: string
  source_city :: "string option"
  destination_city :: "string option"
  dispatch_time :: 't
  expected_delivery_time :: 't
  actual_delivery_time :: 't
  package_weight :: float64
  delivery_agent_id :: string

text \<open>
  A frame: the names of the columns it has, and its rows. The row type has a field for
  every column the code may read; the field of a column that is not listed is not
  read, and reading a column by name that is not listed raises KeyError. The raw frames
  list the columns found in the JSON records; a raw frame flattened from an empty list
  has no columns. The names of the columns of a frame are distinct.
\<close>

record 'r frame =
  columns :: "string list"
  rows :: "'r list"

type_synonym 't delivery_df = "'t delivery_row frame"

record delayed_row = "datetime delivery_row" +
  delay_minutes :: float64

record clean_row = delayed_row +
  package_weight_kg :: float64

record classified_row = clean_row +
  delay_class :: "string option"

record scored_row = classified_row +
  agent_score :: int

record traffic_row =
  city :: "string option"
  traffic_congestion_score :: float64
  avg_speed :: float64
  weather_warning :: "string option"

type_synonym traffic_df = "traffic_row frame"

record source_joined_row = scored_row +
  city_source :: "string option"
  traffic_congestion_score_source :: float64
  avg_speed_source :: float64
  weather_warning_source :: "string option"

record joined_row = source_joined_row +
  city_dest :: "string option"
  traffic_congestion_score_dest :: float64
  avg_speed_dest :: float64
  weather_warning_dest :: "string option"

record feature_row = joined_row +
  traffic_impact_score :: float64
  traffic_risk_level :: "string option"
  delivery_efficiency_index :: float64
  predicted_delay_risk_level :: "string option"

datatype error =
  FileNotFoundError string
| ValueError
| KeyError

subsection \<open>load_latest_file\<close>

text \<open>
  The folder is the list of its file names. \<open>read\<close> stands for
  \<open>pd.read_json\<close> followed by the flattening of the \<open>deliveries\<close> or \<open>routes\<close> list.
\<close>

definition glob_match :: "string \<Rightarrow> string \<Rightarrow> bool" where
  "glob_match keyword name =
     (prefix (keyword @ ''_'') name \<and> suffix ''.json'' name
      \<and> length keyword + 1 + 5 \<le> length name)"

definition load_latest_file :: "string list \<Rightarrow> string \<Rightarrow> (string \<Rightarrow> 'df) \<Rightarrow> error + 'df" where
  "load_latest_file folder keyword read =
     (let files = rev (sort (filter (glob_match keyword) folder))
      in case files of
           [] \<Rightarrow> Inl (FileNotFoundError keyword)
         | f # _ \<Rightarrow> Inr (read f))"

subsection \<open>clean_delivery_data\<close>

text \<open>
  \<open>to_datetime\<close> stands for \<open>pd.to_datetime(..., errors="coerce")\<close> on one cell: the
  timestamp, or NaT for a missing or unparsable value. A column the frame does not
  have is created as NaT.
\<close>

definition coerce_col :: "('c \<Rightarrow> datetime) \<Rightarrow> string list \<Rightarrow> string \<Rightarrow> 'c \<Rightarrow> datetime" where
  "coerce_col to_datetime cols col v = (if col \<in> set cols then to_datetime v else NaT)"

definition coerce_timestamps ::
  "('c \<Rightarrow> datetime) \<Rightarrow> string list \<Rightarrow> 'c delivery_row \<Rightarrow> datetime delivery_row" where
  "coerce_timestamps to_datetime cols r =
     \<lparr> shipment_id = shipment_id r,
       source_city = source_city r,
       destination_city = destination_city r,
       dispatch_time = coerce_col to_datetime cols ''dispatch_time'' (dispatch_time r),
       expected_delivery_time =
         coerce_col to_datetime cols ''expected_delivery_time'' (expected_delivery_time r),
       actual_delivery_time =
         coerce_col to_datetime cols ''actual_delivery_time'' (actual_delivery_time r),
       package_weight = package_weight r,
       delivery_agent_id = delivery_agent_id r \<rparr>"

definition compute_delay :: "datetime delivery_row \<Rightarrow> delayed_row" where
  "compute_delay r =
     delivery_row.extend r
       (delayed_row.fields
          (fl_div (total_seconds
                     (sub_datetime (actual_delivery_time r) (expected_delivery_time r)))
                  (Fin 60)))"

text \<open>\<open>df.get("package_weight", 0)\<close>: the column when the frame has it, else 0.\<close>

definition get_package_weight :: "string list \<Rightarrow> delayed_row \<Rightarrow> float64" where
  "get_package_weight cols r =
     (if ''package_weight'' \<in> set cols then package_weight r else Fin 0)"

definition add_weight_kg :: "string list \<Rightarrow> delayed_row \<Rightarrow> clean_row" where
  "add_weight_kg cols r = delayed_row.extend r (clean_row.fields (get_package_weight cols r))"

definition clean_delivery_data :: "('c \<Rightarrow> datetime) \<Rightarrow> 'c delivery_df \<Rightarrow> clean_row list" where
  "clean_delivery_data to_datetime df =
     (let df1 = map (coerce_timestamps to_datetime (columns df)) (rows df);
          df2 = map compute_delay df1;
          df3 = filter (\<lambda>r. notnull (delay_minutes r)) df2
      in map (add_weight_kg (columns df)) df3)"

subsection \<open>classify_delay and compute_agent_score\<close>

definition delay_bins :: "float64 list" where
  "delay_bins = [NegInf, Fin 0, Fin 60, Fin 180, PosInf]"

definition delay_labels :: "string list" where
  "delay_labels = [''On-Time'', ''Slight Delay'', ''Major Delay'', ''Critical Delay'']"

definition classify_delay :: "clean_row list \<Rightarrow> classified_row list" where
  "classify_delay df =
     map (\<lambda>r. clean_row.extend r
                (classified_row.fields (cut delay_bins delay_labels (delay_minutes r)))) df"

definition score_bins :: "float64 list" where
  "score_bins = [NegInf, Fin 0, Fin 30, Fin 60, Fin 180, PosInf]"

definition score_labels :: "int list" where
  "score_labels = [5, 4, 3, 2, 1]"

text \<open>
  \<open>astype(int)\<close> raises on a column with a missing label, and then no frame is
  returned.
\<close>

fun astype_int :: "int option list \<Rightarrow> error + int list" where
  "astype_int [] = Inr []"
| "astype_int (None # xs) = Inl ValueError"
| "astype_int (Some v # xs) =
     (case astype_int xs of Inl e \<Rightarrow> Inl e | Inr vs \<Rightarrow> Inr (v # vs))"

definition compute_agent_score :: "classified_row list \<Rightarrow> error + scored_row list" where
  "compute_agent_score df =
     (case astype_int (map (\<lambda>r. cut score_bins score_labels (delay_minutes r)) df) of
        Inl e \<Rightarrow> Inl e
      | Inr scores \<Rightarrow>
          Inr (map (\<lambda>(r, s). classified_row.extend r (scored_row.fields s)) (zip df scores)))"

subsection \<open>merge_with_traffic\<close>

text \<open>
  A left merge on one key: every left row, in order, once for each right row with an
  equal key (missing keys are equal to each other), or once with no right row when
  none has the key.
\<close>

definition merge_left ::
  "('a \<Rightarrow> string option) \<Rightarrow> ('b \<Rightarrow> string option) \<Rightarrow> ('a \<Rightarrow> 'b option \<Rightarrow> 'c)
     \<Rightarrow> 'a list \<Rightarrow> 'b list \<Rightarrow> 'c list" where
  "merge_left left_on right_on combine left right =
     concat (map (\<lambda>l. case filter (\<lambda>r. right_on r = left_on l) right of
                         [] \<Rightarrow> [combine l None]
                       | ms \<Rightarrow> map (\<lambda>r. combine l (Some r)) ms) left)"

text \<open>The traffic columns under the suffix, or all missing when no traffic row matched.\<close>

definition with_source :: "scored_row \<Rightarrow> traffic_row option \<Rightarrow> source_joined_row" where
  "with_source l m =
     scored_row.extend l
       (case m of
          None \<Rightarrow> source_joined_row.fields None NaN NaN None
        | Some t \<Rightarrow> source_joined_row.fields (city t) (traffic_congestion_score t)
                      (avg_speed t) (weather_warning t))"

definition with_dest :: "source_joined_row \<Rightarrow> traffic_row option \<Rightarrow> joined_row" where
  "with_dest l m =
     source_joined_row.extend l
       (case m of
          None \<Rightarrow> joined_row.fields None NaN NaN None
        | Some t \<Rightarrow> joined_row.fields (city t) (traffic_congestion_score t)
                      (avg_speed t) (weather_warning t))"

text \<open>
  The columns of a merge on keys of different names: the left columns, then the right
  columns, a name that both sides have getting the suffix \<open>_x\<close> on the left and
  \<open>_y\<close> on the right. (A name with a suffix that then equals another column's name
  is outside the model; no column of the delivery or traffic records gives one.)
\<close>

definition merge_columns :: "string list \<Rightarrow> string list \<Rightarrow> string list" where
  "merge_columns left right =
     map (\<lambda>c. if c \<in> set right then c @ ''_x'' else c) left
     @ map (\<lambda>c. if c \<in> set left then c @ ''_y'' else c) right"

text \<open>
  \<open>left.merge(right, left_on=..., right_on=..., how="left")\<close>: KeyError when the left
  frame lacks the left key column or the right frame lacks the right one. The key
  columns are given by their names and by the fields that hold them.
\<close>

definition left_merge ::
  "string \<Rightarrow> ('a \<Rightarrow> string option) \<Rightarrow> string \<Rightarrow> ('b \<Rightarrow> string option)
     \<Rightarrow> ('a \<Rightarrow> 'b option \<Rightarrow> 'c) \<Rightarrow> 'a frame \<Rightarrow> 'b frame \<Rightarrow> error + 'c frame" where
  "left_merge left_on left_key right_on right_key combine left right =
     (if left_on \<in> set (columns left) \<and> right_on \<in> set (columns right)
      then Inr \<lparr> columns = merge_columns (columns left) (columns right),
                 rows = merge_left left_key right_key combine (rows left) (rows right) \<rparr>
      else Inl KeyError)"

definition add_suffix :: "string \<Rightarrow> 'r frame \<Rightarrow> 'r frame" where
  "add_suffix s df = df\<lparr>columns := map (\<lambda>c. c @ s) (columns df)\<rparr>"

definition merge_with_traffic :: "scored_row frame \<Rightarrow> traffic_df \<Rightarrow> error + joined_row frame" where
  "merge_with_traffic delivery_df traffic_df =
     (case left_merge ''source_city'' source_city ''city_source'' city with_source
             delivery_df (add_suffix ''_source'' traffic_df) of
        Inl e \<Rightarrow> Inl e
      | Inr delivery_df1 \<Rightarrow>
          left_merge ''destination_city'' destination_city ''city_dest'' city with_dest
            delivery_df1 (add_suffix ''_dest'' traffic_df))"

text \<open>The rows of the double join, when no key column is missing.\<close>

abbreviation joined_rows :: "scored_row list \<Rightarrow> traffic_row list \<Rightarrow> joined_row list" where
  "joined_rows d t \<equiv>
     merge_left destination_city city with_dest (merge_left source_city city with_source d t) t"

subsection \<open>feature_engineering\<close>

definition traffic_impact :: "joined_row \<Rightarrow> float64" where
  "traffic_impact r =
     fl_mul
       (fl_add
          (fl_div (fillna (Fin 0) (traffic_congestion_score_source r))
                  (replace_val 0 1 (avg_speed_source r)))
          (fl_div (fillna (Fin 0) (traffic_congestion_score_dest r))
                  (replace_val 0 1 (avg_speed_dest r))))
       (Fin 10)"

definition traffic_risk_bins :: "float64 list" where
  "traffic_risk_bins = [NegInf, Fin 7, Fin 15, PosInf]"

definition traffic_risk_labels :: "string list" where
  "traffic_risk_labels = [''Low Risk'', ''Moderate Risk'', ''High Risk'']"

definition efficiency_index :: "joined_row \<Rightarrow> float64" where
  "efficiency_index r =
     fl_mul (fl_div (package_weight_kg r) (fl_add (delay_minutes r) (Fin 1)))
            (Fin (real_of_int (agent_score r)))"

definition delay_risk_bins :: "float64 list" where
  "delay_risk_bins = [NegInf, Fin 5, Fin 15, PosInf]"

definition delay_risk_labels :: "string list" where
  "delay_risk_labels = [''High Risk'', ''Moderate Risk'', ''Low Risk'']"

definition engineer_row :: "joined_row \<Rightarrow> feature_row" where
  "engineer_row r =
     (let tis = traffic_impact r;
          trl = cut traffic_risk_bins traffic_risk_labels tis;
          dei = efficiency_index r;
          pdr = cut delay_risk_bins delay_risk_labels dei
      in joined_row.extend r (feature_row.fields tis trl dei pdr))"

text \<open>
  The columns that \<open>feature_engineering\<close> reads by name: KeyError when the joined
  frame lacks one of them. The result is given by its rows.
\<close>

definition feature_inputs :: "string list" where
  "feature_inputs =
     [''traffic_congestion_score_source'', ''avg_speed_source'',
      ''traffic_congestion_score_dest'', ''avg_speed_dest'',
      ''package_weight_kg'', ''delay_minutes'', ''agent_score'']"

definition feature_engineering :: "joined_row frame \<Rightarrow> error + feature_row list" where
  "feature_engineering df =
     (if set feature_inputs \<subseteq> set (columns df) then Inr (map engineer_row (rows df))
      else Inl KeyError)"

subsection \<open>transform_pipeline\<close>

text \<open>
  The file system: the names of the files of the raw folder, and the staged folder as
  the list of its files, each a name with the frame written to it. \<open>now\<close> is the
  formatted time of the run.
\<close>

record file_system =
  raw_dir :: "string list"
  staged_dir :: "(string \<times> feature_row list) list"

definition to_csv :: "feature_row list \<Rightarrow> string \<Rightarrow> file_system \<Rightarrow> file_system" where
  "to_csv df name fs =
     fs\<lparr>staged_dir := (name, df) # filter (\<lambda>(n, _). n \<noteq> name) (staged_dir fs)\<rparr>"

text \<open>
  Cleaning, classification and scoring read only columns that cleaning has written, so
  they are given on the rows. They write seven columns, each in place when the frame
  has it and at the end otherwise; the other columns of the raw frame stay.
\<close>

definition set_col :: "string \<Rightarrow> string list \<Rightarrow> string list" where
  "set_col c cols = (if c \<in> set cols then cols else cols @ [c])"

definition scored_columns :: "string list \<Rightarrow> string list" where
  "scored_columns cols =
     foldl (\<lambda>cs c. set_col c cs) cols
       [''dispatch_time'', ''expected_delivery_time'', ''actual_delivery_time'',
        ''delay_minutes'', ''package_weight_kg'', ''delay_class'', ''agent_score'']"

text \<open>
  The five stages between loading and saving. The join receives the scored rows as a
  frame with the columns that the delivery frame has by then.
\<close>

definition transform_stages ::
  "('c \<Rightarrow> datetime) \<Rightarrow> 'c delivery_df \<Rightarrow> traffic_df \<Rightarrow> error + feature_row list" where
  "transform_stages to_datetime delivery_df traffic_df =
     (let delivery_df1 = clean_delivery_data to_datetime delivery_df;
          delivery_df2 = classify_delay delivery_df1
      in case compute_agent_score delivery_df2 of
           Inl e \<Rightarrow> Inl e
         | Inr delivery_df3 \<Rightarrow>
             (case merge_with_traffic
                     \<lparr> columns = scored_columns (columns delivery_df), rows = delivery_df3 \<rparr>
                     traffic_df of
                Inl e \<Rightarrow> Inl e
              | Inr merged_df \<Rightarrow> feature_engineering merged_df))"

definition transform_pipeline ::
  "(string \<Rightarrow> 'c delivery_df) \<Rightarrow> (string \<Rightarrow> traffic_df) \<Rightarrow> ('c \<Rightarrow> datetime) \<Rightarrow> string
     \<Rightarrow> file_system \<Rightarrow> (error + string) \<times> file_system" where
  "transform_pipeline read_delivery read_traffic to_datetime now fs =
     (case load_latest_file (raw_dir fs) ''live_delivery'' read_delivery of
        Inl e \<Rightarrow> (Inl e, fs)
      | Inr delivery_df \<Rightarrow>
          (case load_latest_file (raw_dir fs) ''route_traffic'' read_traffic of
             Inl e \<Rightarrow> (Inl e, fs)
           | Inr traffic_df \<Rightarrow>
               (case transform_stages to_datetime delivery_df traffic_df of
                  Inl e \<Rightarrow> (Inl e, fs)
                | Inr final_df \<Rightarrow>
                    (let output_file = ''transformed_delivery_'' @ now @ ''.csv''
                     in (Inr output_file, to_csv final_df output_file fs)))))"

subsection \<open>Example frames\<close>

text \<open>
  The columns of the delivery records and of the traffic records of extract.py, and its
  fallback data. A raw timestamp cell is here the number of
  nanoseconds since the epoch that \<open>pd.to_datetime\<close> reads the string as, or missing
  (\<open>null\<close>), so that \<open>to_datetime\<close> is the identity on these cells:
  2025-01-10 08:00 is 1736496000000000000, 2025-01-12 20:00 is 1736712000000000000,
  2025-01-09 10:30 is 1736418600000000000, 2025-01-11 18:00 is 1736618400000000000,
  2025-01-11 19:10 is 1736622600000000000.
\<close>

definition delivery_columns :: "string list" where
  "delivery_columns =
     [''shipment_id'', ''source_city'', ''destination_city'', ''dispatch_time'',
      ''expected_delivery_time'', ''actual_delivery_time'', ''package_weight'',
      ''delivery_agent_id'']"

definition SH001 :: "int option delivery_row" where
  "SH001 =
     \<lparr> shipment_id = ''SH001'', source_city = Some ''Hyderabad'',
       destination_city = Some ''Mumbai'', dispatch_time = Some 1736496000000000000,
       expected_delivery_time = Some 1736712000000000000, actual_delivery_time = None,
       package_weight = Fin (142 / 10), delivery_agent_id = ''AG145'' \<rparr>"

definition SH002 :: "int option delivery_row" where
  "SH002 =
     \<lparr> shipment_id = ''SH002'', source_city = Some ''Delhi'',
       destination_city = Some ''Bangalore'', dispatch_time = Some 1736418600000000000,
       expected_delivery_time = Some 1736618400000000000,
       actual_delivery_time = Some 1736622600000000000,
       package_weight = Fin (78 / 10), delivery_agent_id = ''AG032'' \<rparr>"

definition fallback_delivery_data :: "int option delivery_df" where
  "fallback_delivery_data = \<lparr> columns = delivery_columns, rows = [SH001, SH002] \<rparr>"

definition traffic_columns :: "string list" where
  "traffic_columns =
     [''city'', ''traffic_congestion_score'', ''avg_speed'', ''weather_warning'']"

definition Hyderabad :: traffic_row where
  "Hyderabad =
     \<lparr> city = Some ''Hyderabad'', traffic_congestion_score = Fin 7,
       avg_speed = Fin (235 / 10), weather_warning = Some ''Heavy rain'' \<rparr>"

definition Bangalore :: traffic_row where
  "Bangalore =
     \<lparr> city = Some ''Bangalore'', traffic_congestion_score = Fin 6,
       avg_speed = Fin 28, weather_warning = None \<rparr>"

definition fallback_traffic_data :: traffic_df where
  "fallback_traffic_data = \<lparr> columns = traffic_columns, rows = [Hyderabad, Bangalore] \<rparr>"

text \<open>
  Variations of the fallback data: shipment SH002 going from Hyderabad to Bangalore,
  delivered a given number of minutes after (or, when negative, before) the expected
  time, with a given weight; a frame of one such row, and a frame with one row for
  each delay on a bin edge; and a traffic frame of the two cities with given source
  congestion and speed.
\<close>

definition SH002_after :: "int \<Rightarrow> float64 \<Rightarrow> int option delivery_row" where
  "SH002_after minutes weight =
     SH002\<lparr> source_city := Some ''Hyderabad'',
            actual_delivery_time := Some (1736618400000000000 + minutes * 60000000000),
            package_weight := weight \<rparr>"

definition delivered_after :: "int \<Rightarrow> float64 \<Rightarrow> int option delivery_df" where
  "delivered_after minutes weight =
     \<lparr> columns = delivery_columns, rows = [SH002_after minutes weight] \<rparr>"

definition boundary_deliveries :: "int option delivery_df" where
  "boundary_deliveries =
     \<lparr> columns = delivery_columns,
       rows = [SH002_after 0 (Fin 5), SH002_after 30 (Fin 5), SH002_after 60 (Fin 5),
               SH002_after 180 (Fin 5)] \<rparr>"

definition traffic_with :: "float64 \<Rightarrow> float64 \<Rightarrow> traffic_df" where
  "traffic_with congestion speed =
     \<lparr> columns = traffic_columns,
       rows = [Hyderabad\<lparr> traffic_congestion_score := congestion, avg_speed := speed \<rparr>,
               Bangalore] \<rparr>"

text \<open>
  Shipment SH002 of the fallback data after cleaning, classification and scoring: it
  was delivered 70 minutes late.
\<close>

definition scored_SH002 :: scored_row where
  "scored_SH002 =
     \<lparr> shipment_id = ''SH002'', source_city = Some ''Delhi'',
       destination_city = Some ''Bangalore'', dispatch_time = Some 1736418600000000000,
       expected_delivery_time = Some 1736618400000000000,
       actual_delivery_time = Some 1736622600000000000,
       package_weight = Fin (78 / 10), delivery_agent_id = ''AG032'',
       delay_minutes = Fin 70, package_weight_kg = Fin (78 / 10),
       delay_class = Some ''Major Delay'', agent_score = 2 \<rparr>"

text \<open>
  The frame of that one row, and the fallback traffic rows listed twice, as a traffic
  source that reports every city twice would give them.
\<close>

definition scored_fallback :: "scored_row frame" where
  "scored_fallback = \<lparr> columns = scored_columns delivery_columns, rows = [scored_SH002] \<rparr>"

definition doubled_traffic_data :: traffic_df where
  "doubled_traffic_data =
     \<lparr> columns = traffic_columns, rows = [Hyderabad, Bangalore, Hyderabad, Bangalore] \<rparr>"

section \<open>Properties\<close>

subsection \<open>Auxiliary facts about the stages\<close>

lemmas row_defs = delivery_row.defs delayed_row.defs clean_row.defs classified_row.defs
  scored_row.defs source_joined_row.defs joined_row.defs feature_row.defs

lemmas fixture_defs = SH001_def SH002_def SH002_after_def delivered_after_def scored_SH002_def
  boundary_deliveries_def traffic_with_def fallback_delivery_data_def
  fallback_traffic_data_def delivery_columns_def traffic_columns_def Hyderabad_def
  Bangalore_def scored_fallback_def doubled_traffic_data_def

lemmas stage_defs = transform_stages_def clean_delivery_data_def coerce_timestamps_def
  coerce_col_def compute_delay_def add_weight_kg_def get_package_weight_def notnull_def
  classify_delay_def compute_agent_score_def merge_with_traffic_def merge_left_def
  with_source_def with_dest_def feature_engineering_def engineer_row_def traffic_impact_def
  efficiency_index_def fillna_def replace_val_def signed_inf_def left_merge_def
  merge_columns_def add_suffix_def feature_inputs_def set_col_def scored_columns_def

lemmas cut_defs = cut_def searchsorted_left_def delay_bins_def delay_labels_def
  score_bins_def score_labels_def traffic_risk_bins_def traffic_risk_labels_def
  delay_risk_bins_def delay_risk_labels_def

lemma delay_class_fin:
  "cut delay_bins delay_labels (Fin d) =
     Some (if d \<le> 0 then ''On-Time'' else if d \<le> 60 then ''Slight Delay''
           else if d \<le> 180 then ''Major Delay'' else ''Critical Delay'')"
  by (simp add: cut_def searchsorted_left_def delay_bins_def delay_labels_def)

lemma agent_score_fin:
  "cut score_bins score_labels (Fin d) =
     Some (if d \<le> 0 then 5 else if d \<le> 30 then 4 else if d \<le> 60 then 3
           else if d \<le> 180 then 2 else 1)"
  by (simp add: cut_def searchsorted_left_def score_bins_def score_labels_def)

lemma astype_int_map_Some: "astype_int (map Some vs) = Inr vs"
  by (induction vs) simp_all

lemma delay_value:
  "fl_div (total_seconds (sub_datetime a e)) (Fin 60) =
     (case (a, e) of
        (Some x, Some y) \<Rightarrow> Fin (real_of_int (x - y) / 1000000000 / 60)
      | _ \<Rightarrow> NaN)"
  by (cases a; cases e) simp_all

lemma compute_delay_sel [simp]:
  "delay_minutes (compute_delay r) =
     fl_div (total_seconds (sub_datetime (actual_delivery_time r) (expected_delivery_time r))) (Fin 60)"
  "actual_delivery_time (compute_delay r) = actual_delivery_time r"
  "expected_delivery_time (compute_delay r) = expected_delivery_time r"
  "package_weight (compute_delay r) = package_weight r"
  "shipment_id (compute_delay r) = shipment_id r"
  "source_city (compute_delay r) = source_city r"
  "destination_city (compute_delay r) = destination_city r"
  by (simp_all add: compute_delay_def row_defs)

lemma add_weight_kg_sel [simp]:
  "package_weight_kg (add_weight_kg cols r) = get_package_weight cols r"
  "delay_minutes (add_weight_kg cols r) = delay_minutes r"
  "actual_delivery_time (add_weight_kg cols r) = actual_delivery_time r"
  "expected_delivery_time (add_weight_kg cols r) = expected_delivery_time r"
  "package_weight (add_weight_kg cols r) = package_weight r"
  "shipment_id (add_weight_kg cols r) = shipment_id r"
  "source_city (add_weight_kg cols r) = source_city r"
  "destination_city (add_weight_kg cols r) = destination_city r"
  by (simp_all add: add_weight_kg_def row_defs)

lemma coerce_timestamps_sel [simp]:
  "actual_delivery_time (coerce_timestamps f cols r) =
     coerce_col f cols ''actual_delivery_time'' (actual_delivery_time r)"
  "expected_delivery_time (coerce_timestamps f cols r) =
     coerce_col f cols ''expected_delivery_time'' (expected_delivery_time r)"
  "package_weight (coerce_timestamps f cols r) = package_weight r"
  "shipment_id (coerce_timestamps f cols r) = shipment_id r"
  "source_city (coerce_timestamps f cols r) = source_city r"
  "destination_city (coerce_timestamps f cols r) = destination_city r"
  by (simp_all add: coerce_timestamps_def)


lemma delay_notnull_iff:
  "notnull (delay_minutes (compute_delay r)) \<longleftrightarrow>
     actual_delivery_time r \<noteq> NaT \<and> expected_delivery_time r \<noteq> NaT"
  by (cases "actual_delivery_time r"; cases "expected_delivery_time r")
     (simp_all add: notnull_def)

lemma clean_delivery_data_alt:
  "clean_delivery_data f df =
     map (\<lambda>r. add_weight_kg (columns df) (compute_delay (coerce_timestamps f (columns df) r)))
       (filter (\<lambda>r. coerce_col f (columns df) ''actual_delivery_time'' (actual_delivery_time r) \<noteq> NaT
                  \<and> coerce_col f (columns df) ''expected_delivery_time'' (expected_delivery_time r) \<noteq> NaT)
          (rows df))"
  unfolding clean_delivery_data_def Let_def filter_map o_def delay_notnull_iff
  by simp



lemma astype_int_Inr_D: "astype_int xs = Inr ys \<Longrightarrow> xs = map Some ys"
proof (induction xs arbitrary: ys rule: astype_int.induct)
  case 1
  then show ?case by simp
next
  case (2 xs)
  then show ?case by simp
next
  case (3 v xs)
  then show ?case by (auto split: sum.splits)
qed

lemma astype_int_Inr_iff: "astype_int xs = Inr ys \<longleftrightarrow> xs = map Some ys"
  using astype_int_Inr_D astype_int_map_Some by blast

lemma classify_delay_sel:
  "r' \<in> set (classify_delay df) \<Longrightarrow>
     \<exists>r \<in> set df. delay_class r' = cut delay_bins delay_labels (delay_minutes r)
        \<and> delay_minutes r' = delay_minutes r \<and> package_weight_kg r' = package_weight_kg r
        \<and> package_weight r' = package_weight r
        \<and> actual_delivery_time r' = actual_delivery_time r
        \<and> expected_delivery_time r' = expected_delivery_time r
        \<and> shipment_id r' = shipment_id r
        \<and> source_city r' = source_city r \<and> destination_city r' = destination_city r"
  by (auto simp: classify_delay_def row_defs)


lemma compute_agent_score_sel:
  assumes "compute_agent_score df = Inr out" and "r' \<in> set out"
  shows "\<exists>r \<in> set df. cut score_bins score_labels (delay_minutes r) = Some (agent_score r')
        \<and> delay_class r' = delay_class r
        \<and> delay_minutes r' = delay_minutes r \<and> package_weight_kg r' = package_weight_kg r
        \<and> package_weight r' = package_weight r
        \<and> actual_delivery_time r' = actual_delivery_time r
        \<and> expected_delivery_time r' = expected_delivery_time r
        \<and> shipment_id r' = shipment_id r
        \<and> source_city r' = source_city r \<and> destination_city r' = destination_city r"
proof -
  from assms(1) obtain scores where
    sc: "map (\<lambda>r. cut score_bins score_labels (delay_minutes r)) df = map Some scores"
    and out: "out = map (\<lambda>(r, s). classified_row.extend r (scored_row.fields s)) (zip df scores)"
    by (auto simp: compute_agent_score_def astype_int_Inr_iff split: sum.splits)
  from sc have len: "length scores = length df"
    by (metis length_map)
  from assms(2) out obtain r s where rs: "(r, s) \<in> set (zip df scores)"
    and r': "r' = classified_row.extend r (scored_row.fields s)"
    by auto
  from rs obtain i where i: "i < length df" "df ! i = r" "scores ! i = s"
    using len by (auto simp: set_zip)
  from sc i len have "cut score_bins score_labels (delay_minutes r) = Some s"
    by (metis nth_map)
  moreover have "r \<in> set df" using i by auto
  ultimately show ?thesis using r' by (auto simp: row_defs)
qed

lemma length_compute_agent_score:
  "compute_agent_score df = Inr out \<Longrightarrow> length out = length df"
  by (auto simp: compute_agent_score_def astype_int_Inr_iff split: sum.splits dest!: arg_cong[where f=length])


lemma set_merge_left:
  "x \<in> set (merge_left lk rk comb L R) \<longleftrightarrow>
     (\<exists>l \<in> set L. (filter (\<lambda>r. rk r = lk l) R = [] \<and> x = comb l None)
        \<or> (\<exists>r \<in> set R. rk r = lk l \<and> x = comb l (Some r)))"
proof -
  have "set (case filter (\<lambda>r. rk r = lk l) R of [] \<Rightarrow> [comb l None]
              | ms \<Rightarrow> map (\<lambda>r. comb l (Some r)) ms)
        = (if filter (\<lambda>r. rk r = lk l) R = [] then {comb l None}
           else (\<lambda>r. comb l (Some r)) ` {r \<in> set R. rk r = lk l})" for l
    by (cases "filter (\<lambda>r. rk r = lk l) R") (auto simp flip: set_filter)
  then show ?thesis
    unfolding merge_left_def by (auto simp: filter_empty_conv)
qed

lemma length_merge_left_ge: "length L \<le> length (merge_left lk rk comb L R)"
proof (induction L)
  case Nil
  then show ?case by (simp add: merge_left_def)
next
  case (Cons l L)
  have "1 \<le> length (case filter (\<lambda>r. rk r = lk l) R of [] \<Rightarrow> [comb l None]
              | ms \<Rightarrow> map (\<lambda>r. comb l (Some r)) ms)"
    by (cases "filter (\<lambda>r. rk r = lk l) R") simp_all
  with Cons show ?case by (simp add: merge_left_def)
qed

lemma filter_distinct_key:
  "distinct (map rk R) \<Longrightarrow>
     filter (\<lambda>r. rk r = k) R = (case find (\<lambda>r. rk r = k) R of None \<Rightarrow> [] | Some r \<Rightarrow> [r])"
proof (induction R)
  case Nil
  then show ?case by simp
next
  case (Cons a R)
  show ?case
  proof (cases "rk a = k")
    case True
    with Cons.prems have "filter (\<lambda>r. rk r = k) R = []"
      by (force simp: filter_empty_conv image_iff)
    with True show ?thesis by simp
  next
    case False
    with Cons show ?thesis by simp
  qed
qed

lemma merge_left_distinct:
  assumes "distinct (map rk R)"
  shows "merge_left lk rk comb L R = map (\<lambda>l. comb l (find (\<lambda>r. rk r = lk l) R)) L"
proof -
  have "(case filter (\<lambda>r. rk r = lk l) R of [] \<Rightarrow> [comb l None]
              | ms \<Rightarrow> map (\<lambda>r. comb l (Some r)) ms) = [comb l (find (\<lambda>r. rk r = lk l) R)]" for l
    by (simp add: filter_distinct_key[OF assms] split: option.splits)
  then show ?thesis
    by (induction L) (simp_all add: merge_left_def)
qed

lemma with_source_sel [simp]:
  "city_source (with_source l m) = (case m of None \<Rightarrow> None | Some t \<Rightarrow> city t)"
  "traffic_congestion_score_source (with_source l m) =
     (case m of None \<Rightarrow> NaN | Some t \<Rightarrow> traffic_congestion_score t)"
  "avg_speed_source (with_source l m) = (case m of None \<Rightarrow> NaN | Some t \<Rightarrow> avg_speed t)"
  "weather_warning_source (with_source l m) =
     (case m of None \<Rightarrow> None | Some t \<Rightarrow> weather_warning t)"
  "scored_row.truncate (with_source l m) = l"
  "agent_score (with_source l m) = agent_score l"
  "delay_class (with_source l m) = delay_class l"
  "delay_minutes (with_source l m) = delay_minutes l"
  "package_weight_kg (with_source l m) = package_weight_kg l"
  "package_weight (with_source l m) = package_weight l"
  "actual_delivery_time (with_source l m) = actual_delivery_time l"
  "expected_delivery_time (with_source l m) = expected_delivery_time l"
  "shipment_id (with_source l m) = shipment_id l"
  "source_city (with_source l m) = source_city l"
  "destination_city (with_source l m) = destination_city l"
  by (simp_all add: with_source_def row_defs split: option.splits)

lemma with_dest_sel [simp]:
  "city_dest (with_dest l m) = (case m of None \<Rightarrow> None | Some t \<Rightarrow> city t)"
  "traffic_congestion_score_dest (with_dest l m) =
     (case m of None \<Rightarrow> NaN | Some t \<Rightarrow> traffic_congestion_score t)"
  "avg_speed_dest (with_dest l m) = (case m of None \<Rightarrow> NaN | Some t \<Rightarrow> avg_speed t)"
  "weather_warning_dest (with_dest l m) =
     (case m of None \<Rightarrow> None | Some t \<Rightarrow> weather_warning t)"
  "source_joined_row.truncate (with_dest l m) = l"
  "city_source (with_dest l m) = city_source l"
  "traffic_congestion_score_source (with_dest l m) = traffic_congestion_score_source l"
  "avg_speed_source (with_dest l m) = avg_speed_source l"
  "weather_warning_source (with_dest l m) = weather_warning_source l"
  "agent_score (with_dest l m) = agent_score l"
  "delay_class (with_dest l m) = delay_class l"
  "delay_minutes (with_dest l m) = delay_minutes l"
  "package_weight_kg (with_dest l m) = package_weight_kg l"
  "package_weight (with_dest l m) = package_weight l"
  "actual_delivery_time (with_dest l m) = actual_delivery_time l"
  "expected_delivery_time (with_dest l m) = expected_delivery_time l"
  "shipment_id (with_dest l m) = shipment_id l"
  "source_city (with_dest l m) = source_city l"
  "destination_city (with_dest l m) = destination_city l"
  by (simp_all add: with_dest_def row_defs split: option.splits)

lemma merge_left_in:
  "x \<in> set (merge_left lk rk comb L R) \<Longrightarrow> \<exists>l \<in> set L. \<exists>m. x = comb l m"
  unfolding set_merge_left by blast

lemma engineer_row_sel [simp]:
  "traffic_impact_score (engineer_row r) = traffic_impact r"
  "traffic_risk_level (engineer_row r) = cut traffic_risk_bins traffic_risk_labels (traffic_impact r)"
  "delivery_efficiency_index (engineer_row r) = efficiency_index r"
  "predicted_delay_risk_level (engineer_row r) =
     cut delay_risk_bins delay_risk_labels (efficiency_index r)"
  "joined_row.truncate (engineer_row r) = r"
  "city_source (engineer_row r) = city_source r"
  "traffic_congestion_score_source (engineer_row r) = traffic_congestion_score_source r"
  "avg_speed_source (engineer_row r) = avg_speed_source r"
  "weather_warning_source (engineer_row r) = weather_warning_source r"
  "city_dest (engineer_row r) = city_dest r"
  "traffic_congestion_score_dest (engineer_row r) = traffic_congestion_score_dest r"
  "avg_speed_dest (engineer_row r) = avg_speed_dest r"
  "weather_warning_dest (engineer_row r) = weather_warning_dest r"
  "agent_score (engineer_row r) = agent_score r"
  "delay_class (engineer_row r) = delay_class r"
  "delay_minutes (engineer_row r) = delay_minutes r"
  "package_weight_kg (engineer_row r) = package_weight_kg r"
  "package_weight (engineer_row r) = package_weight r"
  "actual_delivery_time (engineer_row r) = actual_delivery_time r"
  "expected_delivery_time (engineer_row r) = expected_delivery_time r"
  "shipment_id (engineer_row r) = shipment_id r"
  "source_city (engineer_row r) = source_city r"
  "destination_city (engineer_row r) = destination_city r"
  by (simp_all add: engineer_row_def Let_def row_defs)

lemma truncate_with_dest [simp]:
  "scored_row.truncate (with_dest l m) = scored_row.truncate l"
  by (simp add: with_dest_def row_defs split: option.splits)

lemma joined_rows_sel:
  assumes "r \<in> set (joined_rows d t)"
  shows "\<exists>l \<in> set d. scored_row.truncate r = l
        \<and> agent_score r = agent_score l \<and> delay_class r = delay_class l
        \<and> delay_minutes r = delay_minutes l \<and> package_weight_kg r = package_weight_kg l
        \<and> package_weight r = package_weight l
        \<and> actual_delivery_time r = actual_delivery_time l
        \<and> expected_delivery_time r = expected_delivery_time l
        \<and> shipment_id r = shipment_id l
        \<and> source_city r = source_city l \<and> destination_city r = destination_city l"
proof -
  from assms obtain s m where
    s: "s \<in> set (merge_left source_city city with_source d t)" and r: "r = with_dest s m"
    by (blast dest: merge_left_in)
  from s obtain l m' where l: "l \<in> set d" and s': "s = with_source l m'"
    by (blast dest: merge_left_in)
  show ?thesis
    using l by (intro bexI[of _ l]) (simp_all add: r s')
qed

lemma merge_with_traffic_Inr:
  assumes "merge_with_traffic d t = Inr out"
  shows "rows out = joined_rows (rows d) (rows t)"
    and "''source_city'' \<in> set (columns d)" and "''city'' \<in> set (columns t)"
  using assms
  by (auto simp: merge_with_traffic_def left_merge_def add_suffix_def
           split: sum.splits if_splits)

lemma merge_with_traffic_Inl: "merge_with_traffic d t = Inl e \<Longrightarrow> e = KeyError"
  by (auto simp: merge_with_traffic_def left_merge_def split: sum.splits if_splits)

lemma feature_engineering_Inr:
  "feature_engineering df = Inr out \<Longrightarrow> out = map engineer_row (rows df)"
  by (auto simp: feature_engineering_def split: if_splits)



lemma transform_stages_out:
  assumes "transform_stages f d t = Inr out"
  shows "\<exists>sc J. compute_agent_score (classify_delay (clean_delivery_data f d)) = Inr sc
           \<and> merge_with_traffic \<lparr>columns = scored_columns (columns d), rows = sc\<rparr> t = Inr J
           \<and> rows J = joined_rows sc (rows t)
           \<and> feature_engineering J = Inr out"
proof -
  from assms obtain sc J where
    sc: "compute_agent_score (classify_delay (clean_delivery_data f d)) = Inr sc"
    and J: "merge_with_traffic \<lparr>columns = scored_columns (columns d), rows = sc\<rparr> t = Inr J"
    and out: "feature_engineering J = Inr out"
    by (auto simp: transform_stages_def Let_def split: sum.splits)
  from merge_with_traffic_Inr(1)[OF J] have "rows J = joined_rows sc (rows t)"
    by simp
  with sc J out show ?thesis by blast
qed


lemma transform_stages_row:
  assumes "transform_stages f df t = Inr out" and "r \<in> set out"
  shows "\<exists>x \<in> set (rows df). \<exists>a e.
           coerce_col f (columns df) ''actual_delivery_time'' (actual_delivery_time x) = Some a
         \<and> coerce_col f (columns df) ''expected_delivery_time'' (expected_delivery_time x) = Some e
         \<and> actual_delivery_time r = Some a \<and> expected_delivery_time r = Some e
         \<and> delay_minutes r = Fin (real_of_int (a - e) / 1000000000 / 60)
         \<and> package_weight r = package_weight x
         \<and> package_weight_kg r =
             (if ''package_weight'' \<in> set (columns df) then package_weight x else Fin 0)
         \<and> shipment_id r = shipment_id x
         \<and> source_city r = source_city x \<and> destination_city r = destination_city x
         \<and> delay_class r = cut delay_bins delay_labels (delay_minutes r)
         \<and> cut score_bins score_labels (delay_minutes r) = Some (agent_score r)"
proof -
  from transform_stages_out[OF assms(1)] obtain sc J where
    sc: "compute_agent_score (classify_delay (clean_delivery_data f df)) = Inr sc"
    and J: "rows J = joined_rows sc (rows t)" and out: "feature_engineering J = Inr out"
    by blast
  from assms(2) feature_engineering_Inr[OF out] J obtain j where
    j: "j \<in> set (joined_rows sc (rows t))" and r: "r = engineer_row j"
    by auto
  from joined_rows_sel[OF j] obtain l where l: "l \<in> set sc"
    and jl: "agent_score j = agent_score l" "delay_class j = delay_class l"
      "delay_minutes j = delay_minutes l" "package_weight_kg j = package_weight_kg l"
      "package_weight j = package_weight l"
      "actual_delivery_time j = actual_delivery_time l"
      "expected_delivery_time j = expected_delivery_time l"
      "shipment_id j = shipment_id l"
      "source_city j = source_city l" "destination_city j = destination_city l"
    by blast
  from compute_agent_score_sel[OF sc l] obtain c where c: "c \<in> set (classify_delay (clean_delivery_data f df))"
    and lc: "cut score_bins score_labels (delay_minutes c) = Some (agent_score l)"
      "delay_class l = delay_class c"
      "delay_minutes l = delay_minutes c" "package_weight_kg l = package_weight_kg c"
      "package_weight l = package_weight c"
      "actual_delivery_time l = actual_delivery_time c"
      "expected_delivery_time l = expected_delivery_time c"
      "shipment_id l = shipment_id c"
      "source_city l = source_city c" "destination_city l = destination_city c"
    by blast
  from classify_delay_sel[OF c] obtain k where k: "k \<in> set (clean_delivery_data f df)"
    and ck: "delay_class c = cut delay_bins delay_labels (delay_minutes k)"
      "delay_minutes c = delay_minutes k" "package_weight_kg c = package_weight_kg k"
      "package_weight c = package_weight k"
      "actual_delivery_time c = actual_delivery_time k"
      "expected_delivery_time c = expected_delivery_time k"
      "shipment_id c = shipment_id k"
      "source_city c = source_city k" "destination_city c = destination_city k"
    by blast
  from k obtain x where x: "x \<in> set (rows df)"
    and xa: "coerce_col f (columns df) ''actual_delivery_time'' (actual_delivery_time x) \<noteq> NaT"
    and xe: "coerce_col f (columns df) ''expected_delivery_time'' (expected_delivery_time x) \<noteq> NaT"
    and kx: "k = add_weight_kg (columns df) (compute_delay (coerce_timestamps f (columns df) x))"
    unfolding clean_delivery_data_alt by auto
  from xa xe obtain a e where ae:
    "coerce_col f (columns df) ''actual_delivery_time'' (actual_delivery_time x) = Some a"
    "coerce_col f (columns df) ''expected_delivery_time'' (expected_delivery_time x) = Some e"
    by auto
  have "actual_delivery_time r = Some a" "expected_delivery_time r = Some e"
    "delay_minutes r = Fin (real_of_int (a - e) / 1000000000 / 60)"
    "package_weight r = package_weight x"
    "package_weight_kg r =
             (if ''package_weight'' \<in> set (columns df) then package_weight x else Fin 0)"
    "shipment_id r = shipment_id x"
    "source_city r = source_city x" "destination_city r = destination_city x"
    "delay_class r = cut delay_bins delay_labels (delay_minutes r)"
    "cut score_bins score_labels (delay_minutes r) = Some (agent_score r)"
    using r jl lc ck kx ae by (simp_all add: delay_value get_package_weight_def)
  with x ae show ?thesis by blast
qed

subsection \<open>Classification and score on the bin edges\<close>

text \<open>
  Claim C1. For every row with a defined delay, the delay class and the agent score are
  taken from right-closed bins: a delay of exactly 0 is "On-Time" with score 5, exactly
  30 has score 4, exactly 60 is "Slight Delay" with score 3, exactly 180 is "Major
  Delay" with score 2. The edge belongs to the lower band.
\<close>

theorem boundary_belongs_to_lower_band:
  assumes "compute_agent_score (classify_delay df) = Inr out"
    and "r \<in> set out" and "delay_minutes r = Fin d"
  shows "delay_class r =
           Some (if d \<le> 0 then ''On-Time'' else if d \<le> 60 then ''Slight Delay''
                 else if d \<le> 180 then ''Major Delay'' else ''Critical Delay'')
       \<and> agent_score r =
           (if d \<le> 0 then 5 else if d \<le> 30 then 4 else if d \<le> 60 then 3
            else if d \<le> 180 then 2 else 1)
       \<and> (d = 0 \<longrightarrow> delay_class r = Some ''On-Time'' \<and> agent_score r = 5)
       \<and> (d = 30 \<longrightarrow> delay_class r = Some ''Slight Delay'' \<and> agent_score r = 4)
       \<and> (d = 60 \<longrightarrow> delay_class r = Some ''Slight Delay'' \<and> agent_score r = 3)
       \<and> (d = 180 \<longrightarrow> delay_class r = Some ''Major Delay'' \<and> agent_score r = 2)"
proof -
  from compute_agent_score_sel[OF assms(1,2)] obtain c where
    c: "c \<in> set (classify_delay df)"
    and sc: "cut score_bins score_labels (delay_minutes c) = Some (agent_score r)"
    and rc: "delay_class r = delay_class c" "delay_minutes r = delay_minutes c"
    by blast
  from classify_delay_sel[OF c] obtain k where "k \<in> set df"
    "delay_class c = cut delay_bins delay_labels (delay_minutes k)"
    "delay_minutes c = delay_minutes k"
    by blast
  with rc sc assms(3) have
    "delay_class r = cut delay_bins delay_labels (Fin d)"
    "Some (agent_score r) = cut score_bins score_labels (Fin d)"
    by simp_all
  then show ?thesis
    unfolding delay_class_fin agent_score_fin by simp
qed

theorem boundary_belongs_to_lower_band_witness:
  "map_sum id (map (\<lambda>r. (delay_minutes r, delay_class r, agent_score r)))
     (compute_agent_score (classify_delay (clean_delivery_data id boundary_deliveries)))
   = Inr [(Fin 0, Some ''On-Time'', 5), (Fin 30, Some ''Slight Delay'', 4),
          (Fin 60, Some ''Slight Delay'', 3), (Fin 180, Some ''Major Delay'', 2)]"
proof -
  let ?D = "classify_delay (clean_delivery_data id boundary_deliveries)"
  have "\<exists>out. compute_agent_score ?D = Inr out
          \<and> map delay_minutes out = [Fin 0, Fin 30, Fin 60, Fin 180]"
    by (simp add: fixture_defs stage_defs row_defs cut_defs)
  then obtain out where ev: "compute_agent_score ?D = Inr out"
    and dm: "map delay_minutes out = [Fin 0, Fin 30, Fin 60, Fin 180]"
    by (elim exE conjE)
  from dm obtain r0 r1 r2 r3 where out: "out = [r0, r1, r2, r3]"
    and d: "delay_minutes r0 = Fin 0" "delay_minutes r1 = Fin 30"
      "delay_minutes r2 = Fin 60" "delay_minutes r3 = Fin 180"
    by (auto simp: map_eq_Cons_conv)
  have "delay_class r0 = Some ''On-Time'' \<and> agent_score r0 = 5"
    using boundary_belongs_to_lower_band[OF ev _ d(1)] out by simp
  moreover have "delay_class r1 = Some ''Slight Delay'' \<and> agent_score r1 = 4"
    using boundary_belongs_to_lower_band[OF ev _ d(2)] out by simp
  moreover have "delay_class r2 = Some ''Slight Delay'' \<and> agent_score r2 = 3"
    using boundary_belongs_to_lower_band[OF ev _ d(3)] out by simp
  moreover have "delay_class r3 = Some ''Major Delay'' \<and> agent_score r3 = 2"
    using boundary_belongs_to_lower_band[OF ev _ d(4)] out by simp
  ultimately show ?thesis
    using ev out d by simp
qed

subsection \<open>The delay and the rows without one\<close>

text \<open>
  Claim C2. The delay of a delivery row is the signed difference of the actual and the
  expected delivery time, in minutes. A row for which either timestamp is missing or
  unparsable (NaT after coercion, also when the column is absent) is dropped by the
  cleaning stage, and no row of the final output comes from it: every output row
  carries the shipment identifier and the two parsed timestamps of an input row whose
  timestamps are both defined, so that a shipment which is the only one of its
  identifier and lacks a timestamp has no row in the output.
\<close>

theorem delay_is_difference_and_undefined_rows_dropped:
  assumes "transform_stages to_datetime df traffic_df = Inr out"
  shows "clean_delivery_data to_datetime df =
           map (\<lambda>x. add_weight_kg (columns df)
                      (compute_delay (coerce_timestamps to_datetime (columns df) x)))
             (filter (\<lambda>x. coerce_col to_datetime (columns df) ''actual_delivery_time''
                             (actual_delivery_time x) \<noteq> NaT
                         \<and> coerce_col to_datetime (columns df) ''expected_delivery_time''
                             (expected_delivery_time x) \<noteq> NaT)
                (rows df))
       \<and> (\<forall>r \<in> set out. \<exists>x \<in> set (rows df). \<exists>a e.
             shipment_id r = shipment_id x
           \<and> coerce_col to_datetime (columns df) ''actual_delivery_time''
                (actual_delivery_time x) = Some a
           \<and> coerce_col to_datetime (columns df) ''expected_delivery_time''
                (expected_delivery_time x) = Some e
           \<and> actual_delivery_time r = Some a \<and> expected_delivery_time r = Some e
           \<and> delay_minutes r = Fin (real_of_int (a - e) / 1000000000 / 60))
       \<and> (\<forall>x \<in> set (rows df).
             (coerce_col to_datetime (columns df) ''actual_delivery_time''
                (actual_delivery_time x) = NaT
              \<or> coerce_col to_datetime (columns df) ''expected_delivery_time''
                (expected_delivery_time x) = NaT)
             \<and> (\<forall>y \<in> set (rows df). shipment_id y = shipment_id x \<longrightarrow> y = x)
             \<longrightarrow> shipment_id x \<notin> shipment_id ` set out)"
proof (intro conjI ballI impI)
  show "clean_delivery_data to_datetime df =
           map (\<lambda>x. add_weight_kg (columns df)
                      (compute_delay (coerce_timestamps to_datetime (columns df) x)))
             (filter (\<lambda>x. coerce_col to_datetime (columns df) ''actual_delivery_time''
                             (actual_delivery_time x) \<noteq> NaT
                         \<and> coerce_col to_datetime (columns df) ''expected_delivery_time''
                             (expected_delivery_time x) \<noteq> NaT)
                (rows df))"
    by (rule clean_delivery_data_alt)
next
  fix r assume "r \<in> set out"
  from transform_stages_row[OF assms this]
  show "\<exists>x \<in> set (rows df). \<exists>a e.
             shipment_id r = shipment_id x
           \<and> coerce_col to_datetime (columns df) ''actual_delivery_time''
                (actual_delivery_time x) = Some a
           \<and> coerce_col to_datetime (columns df) ''expected_delivery_time''
                (expected_delivery_time x) = Some e
           \<and> actual_delivery_time r = Some a \<and> expected_delivery_time r = Some e
           \<and> delay_minutes r = Fin (real_of_int (a - e) / 1000000000 / 60)"
    by blast
next
  fix x
  assume x: "x \<in> set (rows df)"
    and h: "(coerce_col to_datetime (columns df) ''actual_delivery_time''
                (actual_delivery_time x) = NaT
              \<or> coerce_col to_datetime (columns df) ''expected_delivery_time''
                (expected_delivery_time x) = NaT)
             \<and> (\<forall>y \<in> set (rows df). shipment_id y = shipment_id x \<longrightarrow> y = x)"
  show "shipment_id x \<notin> shipment_id ` set out"
  proof
    assume "shipment_id x \<in> shipment_id ` set out"
    then obtain r where r: "r \<in> set out" and sid: "shipment_id r = shipment_id x"
      by auto
    from transform_stages_row[OF assms r] obtain y a e where
      y: "y \<in> set (rows df)" and "shipment_id r = shipment_id y"
      and ya: "coerce_col to_datetime (columns df) ''actual_delivery_time''
                (actual_delivery_time y) = Some a"
      and ye: "coerce_col to_datetime (columns df) ''expected_delivery_time''
                (expected_delivery_time y) = Some e"
      by blast
    with sid h y have "y = x" by auto
    with ya ye h show False by auto
  qed
qed

theorem delay_is_difference_and_undefined_rows_dropped_witness:
  "map_sum id (map (\<lambda>r. (shipment_id r, delay_minutes r)))
     (transform_stages id fallback_delivery_data fallback_traffic_data)
   = Inr [(''SH002'', Fin 70)]
   \<and> map shipment_id (rows fallback_delivery_data) = [''SH001'', ''SH002'']
   \<and> actual_delivery_time SH001 = NaT"
proof -
  have "\<exists>out. transform_stages id fallback_delivery_data fallback_traffic_data = Inr out
          \<and> map shipment_id out = [''SH002'']"
    by (simp add: fixture_defs stage_defs row_defs cut_defs)
  then obtain out where
    ev: "transform_stages id fallback_delivery_data fallback_traffic_data = Inr out"
    and ids: "map shipment_id out = [''SH002'']"
    by (elim exE conjE)
  from ids obtain r where out: "out = [r]" and sid: "shipment_id r = ''SH002''"
    by (auto simp: map_eq_Cons_conv)
  note inst = delay_is_difference_and_undefined_rows_dropped[OF ev]
  from inst have "\<exists>x \<in> set (rows fallback_delivery_data). \<exists>a e.
             shipment_id r = shipment_id x
           \<and> coerce_col id (columns fallback_delivery_data) ''actual_delivery_time''
                (actual_delivery_time x) = Some a
           \<and> coerce_col id (columns fallback_delivery_data) ''expected_delivery_time''
                (expected_delivery_time x) = Some e
           \<and> actual_delivery_time r = Some a \<and> expected_delivery_time r = Some e
           \<and> delay_minutes r = Fin (real_of_int (a - e) / 1000000000 / 60)"
    using out by simp
  then have "delay_minutes r = Fin 70"
    using sid by (auto simp: fixture_defs coerce_col_def)
  then show ?thesis
    using ev out sid by (simp add: fixture_defs)
qed

subsection \<open>The feature columns\<close>

lemma fl_mul_commute: "fl_mul a b = fl_mul b a"
  by (cases a; cases b) (simp_all add: mult.commute)

lemma feature_row_values:
  assumes "feature_engineering df = Inr out" and "r \<in> set out"
  shows "traffic_impact_score r =
           fl_mul (fl_add (fl_div (fillna (Fin 0) (traffic_congestion_score_source r))
                                  (replace_val 0 1 (avg_speed_source r)))
                          (fl_div (fillna (Fin 0) (traffic_congestion_score_dest r))
                                  (replace_val 0 1 (avg_speed_dest r))))
                  (Fin 10)"
    and "traffic_risk_level r = cut traffic_risk_bins traffic_risk_labels (traffic_impact_score r)"
    and "delivery_efficiency_index r =
           fl_mul (fl_div (package_weight_kg r) (fl_add (delay_minutes r) (Fin 1)))
                  (Fin (real_of_int (agent_score r)))"
    and "predicted_delay_risk_level r =
           cut delay_risk_bins delay_risk_labels (delivery_efficiency_index r)"
  using assms(2) unfolding feature_engineering_Inr[OF assms(1)]
  by (auto simp: traffic_impact_def efficiency_index_def)

subsection \<open>Traffic impact score\<close>

text \<open>
  Claim C3, as the code has it. For every joined row the traffic impact score is
  10 times the sum of the source and destination quotients of congestion by speed, where
  a missing congestion counts as 0 and a speed of exactly 0 is replaced by 1; every
  other speed is used as it is. For finite speeds and finite or missing congestions the
  score is the finite number \<open>10 * (c_s / v_s' + c_d / v_d')\<close>, and it equals
  \<open>10 * (c_s / max v_s 1 + c_d / max v_d 1)\<close> when each speed is 0 or at least 1.
\<close>

theorem traffic_impact_replaces_zero_speed_only:
  assumes "feature_engineering df = Inr out" and "r \<in> set out"
  shows "traffic_impact_score r =
           fl_mul (Fin 10)
             (fl_add
                (fl_div (if traffic_congestion_score_source r = NaN then Fin 0
                         else traffic_congestion_score_source r)
                        (if avg_speed_source r = Fin 0 then Fin 1 else avg_speed_source r))
                (fl_div (if traffic_congestion_score_dest r = NaN then Fin 0
                         else traffic_congestion_score_dest r)
                        (if avg_speed_dest r = Fin 0 then Fin 1 else avg_speed_dest r)))
       \<and> (\<forall>c_s c_d v_s v_d.
             (traffic_congestion_score_source r = Fin c_s
              \<or> traffic_congestion_score_source r = NaN \<and> c_s = 0)
           \<and> (traffic_congestion_score_dest r = Fin c_d
              \<or> traffic_congestion_score_dest r = NaN \<and> c_d = 0)
           \<and> avg_speed_source r = Fin v_s \<and> avg_speed_dest r = Fin v_d
           \<longrightarrow> traffic_impact_score r =
                 Fin (10 * (c_s / (if v_s = 0 then 1 else v_s)
                            + c_d / (if v_d = 0 then 1 else v_d)))
               \<and> ((v_s = 0 \<or> 1 \<le> v_s) \<and> (v_d = 0 \<or> 1 \<le> v_d)
                  \<longrightarrow> traffic_impact_score r =
                        Fin (10 * (c_s / max v_s 1 + c_d / max v_d 1))))"
proof (intro conjI allI impI)
  show "traffic_impact_score r =
           fl_mul (Fin 10)
             (fl_add
                (fl_div (if traffic_congestion_score_source r = NaN then Fin 0
                         else traffic_congestion_score_source r)
                        (if avg_speed_source r = Fin 0 then Fin 1 else avg_speed_source r))
                (fl_div (if traffic_congestion_score_dest r = NaN then Fin 0
                         else traffic_congestion_score_dest r)
                        (if avg_speed_dest r = Fin 0 then Fin 1 else avg_speed_dest r)))"
    unfolding feature_row_values(1)[OF assms] fillna_def replace_val_def
    by (rule fl_mul_commute)
next
  fix c_s c_d v_s v_d
  assume h: "(traffic_congestion_score_source r = Fin c_s
              \<or> traffic_congestion_score_source r = NaN \<and> c_s = 0)
           \<and> (traffic_congestion_score_dest r = Fin c_d
              \<or> traffic_congestion_score_dest r = NaN \<and> c_d = 0)
           \<and> avg_speed_source r = Fin v_s \<and> avg_speed_dest r = Fin v_d"
  then show eq: "traffic_impact_score r =
                 Fin (10 * (c_s / (if v_s = 0 then 1 else v_s)
                            + c_d / (if v_d = 0 then 1 else v_d)))"
    unfolding feature_row_values(1)[OF assms]
    by (auto simp: fillna_def replace_val_def mult.commute)
  assume "(v_s = 0 \<or> 1 \<le> v_s) \<and> (v_d = 0 \<or> 1 \<le> v_d)"
  then have "(if v_s = 0 then 1 else v_s) = max v_s 1" "(if v_d = 0 then 1 else v_d) = max v_d 1"
    by auto
  with eq show "traffic_impact_score r = Fin (10 * (c_s / max v_s 1 + c_d / max v_d 1))"
    by simp
qed

theorem traffic_impact_replaces_zero_speed_only_witness:
  "map_sum id (map traffic_impact_score)
     (transform_stages id (delivered_after 0 (Fin 5)) (traffic_with (Fin 7) (Fin 0)))
   = Inr [Fin (10 * (7 / max 0 1 + 6 / max 28 1))]"
proof -
  let ?run = "transform_stages id (delivered_after 0 (Fin 5)) (traffic_with (Fin 7) (Fin 0))"
  have "\<exists>out. ?run = Inr out
          \<and> map traffic_congestion_score_source out = [Fin 7]
          \<and> map avg_speed_source out = [Fin 0]
          \<and> map traffic_congestion_score_dest out = [Fin 6]
          \<and> map avg_speed_dest out = [Fin 28]"
    by (simp add: fixture_defs stage_defs row_defs cut_defs)
  then obtain out where ev: "?run = Inr out"
    and cols: "map traffic_congestion_score_source out = [Fin 7]"
      "map avg_speed_source out = [Fin 0]"
      "map traffic_congestion_score_dest out = [Fin 6]"
      "map avg_speed_dest out = [Fin 28]"
    by (elim exE conjE)
  from cols obtain r where out: "out = [r]"
    and r: "traffic_congestion_score_source r = Fin 7" "avg_speed_source r = Fin 0"
      "traffic_congestion_score_dest r = Fin 6" "avg_speed_dest r = Fin 28"
    by (auto simp: map_eq_Cons_conv)
  from transform_stages_out[OF ev] obtain J where J: "feature_engineering J = Inr out"
    by blast
  have "r \<in> set out" using out by simp
  from traffic_impact_replaces_zero_speed_only[OF J this] r
  have "traffic_impact_score r = Fin (10 * (7 / max 0 1 + 6 / max 28 1))"
    by simp
  with ev out show ?thesis by simp
qed

text \<open>
  Claim C3 as stated fails for a speed strictly between 0 and 1: with source congestion
  1 at speed 1/2 and destination congestion 6 at speed 28 the score is 155/7, not
  \<open>10 * (1 / max (1/2) 1 + 6 / max 28 1)\<close>.
\<close>

theorem traffic_impact_max_counterexample:
  "map_sum id (map avg_speed_source)
     (transform_stages id (delivered_after 0 (Fin 5)) (traffic_with (Fin 1) (Fin (1 / 2))))
   = Inr [Fin (1 / 2)]
   \<and> map_sum id (map traffic_congestion_score_source)
     (transform_stages id (delivered_after 0 (Fin 5)) (traffic_with (Fin 1) (Fin (1 / 2))))
   = Inr [Fin 1]
   \<and> map_sum id (map avg_speed_dest)
     (transform_stages id (delivered_after 0 (Fin 5)) (traffic_with (Fin 1) (Fin (1 / 2))))
   = Inr [Fin 28]
   \<and> map_sum id (map traffic_congestion_score_dest)
     (transform_stages id (delivered_after 0 (Fin 5)) (traffic_with (Fin 1) (Fin (1 / 2))))
   = Inr [Fin 6]
   \<and> map_sum id (map traffic_impact_score)
     (transform_stages id (delivered_after 0 (Fin 5)) (traffic_with (Fin 1) (Fin (1 / 2))))
   = Inr [Fin (155 / 7)]
   \<and> (155 / 7 :: real) \<noteq> 10 * (1 / max (1 / 2) 1 + 6 / max 28 1)"
  by (simp add: fixture_defs stage_defs row_defs cut_defs)

subsection \<open>The double city join\<close>

lemma merge_left_retains:
  assumes "l \<in> set L"
  shows "\<exists>m. comb l m \<in> set (merge_left lk rk comb L R) \<and> (lk l \<notin> rk ` set R \<longrightarrow> m = None)"
proof (cases "filter (\<lambda>r. rk r = lk l) R = []")
  case True
  with assms have "comb l None \<in> set (merge_left lk rk comb L R)"
    unfolding set_merge_left by blast
  then show ?thesis by blast
next
  case False
  then obtain r where r: "r \<in> set R" "rk r = lk l"
    by (auto simp: filter_empty_conv)
  with assms have "comb l (Some r) \<in> set (merge_left lk rk comb L R)"
    unfolding set_merge_left by blast
  moreover from r have "lk l \<in> rk ` set R" by force
  ultimately show ?thesis by blast
qed

lemma truncate_with_source [simp]: "scored_row.truncate (with_source l m) = l"
  by simp

lemma length_merge_left:
  "length (merge_left lk rk comb L R)
     = sum_list (map (\<lambda>l. max 1 (length (filter (\<lambda>r. rk r = lk l) R))) L)"
proof (induction L)
  case Nil
  then show ?case by (simp add: merge_left_def)
next
  case (Cons l L)
  have "length (case filter (\<lambda>r. rk r = lk l) R of [] \<Rightarrow> [comb l None]
              | ms \<Rightarrow> map (\<lambda>r. comb l (Some r)) ms)
        = max 1 (length (filter (\<lambda>r. rk r = lk l) R))"
    by (cases "filter (\<lambda>r. rk r = lk l) R") simp_all
  with Cons show ?case by (simp add: merge_left_def)
qed

lemma sum_list_merge_left:
  assumes "\<And>l m. h (comb l m) = h' l"
  shows "sum_list (map h (merge_left lk rk comb L R))
     = sum_list (map (\<lambda>l. max 1 (length (filter (\<lambda>r. rk r = lk l) R)) * h' l) L)"
proof (induction L)
  case Nil
  then show ?case by (simp add: merge_left_def)
next
  case (Cons l L)
  have "sum_list (map h (case filter (\<lambda>r. rk r = lk l) R of [] \<Rightarrow> [comb l None]
              | ms \<Rightarrow> map (\<lambda>r. comb l (Some r)) ms))
        = max 1 (length (filter (\<lambda>r. rk r = lk l) R)) * (h' l :: nat)"
    by (cases "filter (\<lambda>r. rk r = lk l) R") (simp_all add: assms o_def sum_list_triv)
  with Cons show ?case by (simp add: merge_left_def)
qed

lemma length_joined_rows:
  "length (joined_rows d t)
     = sum_list (map (\<lambda>l. max 1 (length (filter (\<lambda>r. city r = source_city l) t))
                          * max 1 (length (filter (\<lambda>r. city r = destination_city l) t))) d)"
  unfolding length_merge_left
  by (rule sum_list_merge_left) simp

lemma city_source_column: "''city_source'' \<in> (\<lambda>c. c @ ''_source'') ` C \<longleftrightarrow> ''city'' \<in> C"
proof
  have e: "''city_source'' = ''city'' @ ''_source''" by simp
  assume "''city_source'' \<in> (\<lambda>c. c @ ''_source'') ` C"
  then obtain c where c: "c \<in> C" and "''city_source'' = c @ ''_source''"
    by (rule imageE)
  then have "''city'' @ ''_source'' = c @ ''_source''" unfolding e by simp
  then have "c = ''city''" unfolding append_same_eq by simp
  with c show "''city'' \<in> C" by simp
next
  assume "''city'' \<in> C"
  then have "''city'' @ ''_source'' \<in> (\<lambda>c. c @ ''_source'') ` C" by (rule imageI)
  then show "''city_source'' \<in> (\<lambda>c. c @ ''_source'') ` C" by simp
qed
lemma city_dest_column: "''city_dest'' \<in> (\<lambda>c. c @ ''_dest'') ` C \<longleftrightarrow> ''city'' \<in> C"
proof
  have e: "''city_dest'' = ''city'' @ ''_dest''" by simp
  assume "''city_dest'' \<in> (\<lambda>c. c @ ''_dest'') ` C"
  then obtain c where c: "c \<in> C" and "''city_dest'' = c @ ''_dest''"
    by (rule imageE)
  then have "''city'' @ ''_dest'' = c @ ''_dest''" unfolding e by simp
  then have "c = ''city''" unfolding append_same_eq by simp
  with c show "''city'' \<in> C" by simp
next
  assume "''city'' \<in> C"
  then have "''city'' @ ''_dest'' \<in> (\<lambda>c. c @ ''_dest'') ` C" by (rule imageI)
  then show "''city_dest'' \<in> (\<lambda>c. c @ ''_dest'') ` C" by simp
qed

lemma destination_city_after_first_merge:
  "''destination_city'' \<in> set (merge_columns L (map (\<lambda>c. c @ ''_source'') T))
     \<longleftrightarrow> ''destination_city'' \<in> set L"
proof -
  have "\<not> suffix ''_source'' ''destination_city''" "\<not> suffix ''_x'' ''destination_city''"
    "\<not> suffix ''_y'' ''destination_city''"
    by (simp_all add: suffix_to_prefix)
  then have n: "''destination_city'' \<noteq> c @ ''_source''" "''destination_city'' \<noteq> c @ ''_x''"
    "''destination_city'' \<noteq> c @ ''_y''" for c
    by (auto simp: suffix_def)
  let ?R = "map (\<lambda>c. c @ ''_source'') T"
  have nr: "''destination_city'' \<notin> set ?R"
    using n(1) by auto
  show ?thesis
  proof
    assume "''destination_city'' \<in> set (merge_columns L ?R)"
    then consider
      (l) c where "c \<in> set L" "''destination_city'' = (if c \<in> set ?R then c @ ''_x'' else c)"
      | (r) c where "c \<in> set ?R" "''destination_city'' = (if c \<in> set L then c @ ''_y'' else c)"
      unfolding merge_columns_def by auto
    then show "''destination_city'' \<in> set L"
    proof cases
      case l
      then show ?thesis using n(2)[of c] by (cases "c \<in> set ?R") simp_all
    next
      case r
      then show ?thesis using n(3)[of c] nr by (cases "c \<in> set L") simp_all
    qed
  next
    assume d: "''destination_city'' \<in> set L"
    have "''destination_city'' = (\<lambda>c. if c \<in> set ?R then c @ ''_x'' else c) ''destination_city''"
      using nr by simp
    then have "''destination_city'' \<in> (\<lambda>c. if c \<in> set ?R then c @ ''_x'' else c) ` set L"
      using d by (rule image_eqI)
    then show "''destination_city'' \<in> set (merge_columns L ?R)"
      unfolding merge_columns_def by simp
  qed
qed

lemma left_merge_Inr:
  "left_merge lo lk ro rk comb L R = Inr out \<longleftrightarrow>
     lo \<in> set (columns L) \<and> ro \<in> set (columns R)
     \<and> out = \<lparr>columns = merge_columns (columns L) (columns R),
               rows = merge_left lk rk comb (rows L) (rows R)\<rparr>"
  unfolding left_merge_def by (cases "lo \<in> set (columns L) \<and> ro \<in> set (columns R)") auto

lemma merge_with_traffic_Inr_iff:
  "(\<exists>out. merge_with_traffic d t = Inr out)
     \<longleftrightarrow> ''source_city'' \<in> set (columns d) \<and> ''destination_city'' \<in> set (columns d)
         \<and> ''city'' \<in> set (columns t)"
proof -
  let ?R1 = "add_suffix ''_source'' t" and ?R2 = "add_suffix ''_dest'' t"
  have c1: "''city_source'' \<in> set (columns ?R1) \<longleftrightarrow> ''city'' \<in> set (columns t)"
    unfolding add_suffix_def by (simp add: city_source_column)
  have c2: "''city_dest'' \<in> set (columns ?R2) \<longleftrightarrow> ''city'' \<in> set (columns t)"
    unfolding add_suffix_def by (simp add: city_dest_column)
  have c3: "''destination_city'' \<in> set (merge_columns (columns d) (columns ?R1))
              \<longleftrightarrow> ''destination_city'' \<in> set (columns d)"
    unfolding add_suffix_def by (simp add: destination_city_after_first_merge)
  show ?thesis
  proof (cases "''source_city'' \<in> set (columns d) \<and> ''city'' \<in> set (columns t)")
    case True
    then have 1: "left_merge ''source_city'' source_city ''city_source'' city with_source d ?R1
        = Inr \<lparr>columns = merge_columns (columns d) (columns ?R1),
               rows = merge_left source_city city with_source (rows d) (rows ?R1)\<rparr>"
      unfolding left_merge_Inr c1 by simp
    show ?thesis
      unfolding merge_with_traffic_def 1 sum.case left_merge_Inr
      using True by (simp add: c2 c3)
  next
    case False
    then have "left_merge ''source_city'' source_city ''city_source'' city with_source d ?R1
        = Inl KeyError"
      unfolding left_merge_def c1 by auto
    then show ?thesis
      unfolding merge_with_traffic_def using False by auto
  qed
qed

text \<open>
  Claim C4, as the code has it. Take a delivery frame whose columns are columns of the
  delivery records or written by the first three stages, among them \<open>source_city\<close>
  and \<open>destination_city\<close>, and a traffic frame with the column \<open>city\<close>. The join
  returns a frame and never drops a delivery row: for every delivery row it has a row
  that extends it, with the traffic columns of a side missing when no traffic row has
  that side's city. The number of joined rows is the sum, over the delivery rows, of
  \<open>max 1 m * max 1 n\<close>, where \<open>m\<close> is the number of traffic rows with the row's
  source city and \<open>n\<close> the number with its destination city; so the joined frame has
  at least as many rows as the delivery frame, and when no city occurs twice in the
  traffic frame it has exactly the rows of the delivery frame, in order, each extended.
  When one of the three key columns is missing, the join raises KeyError.
\<close>

theorem join_keeps_every_delivery_row:
  "(set (columns delivery_df) \<subseteq> set (scored_columns delivery_columns)
      \<and> ''source_city'' \<in> set (columns delivery_df)
      \<and> ''destination_city'' \<in> set (columns delivery_df)
      \<and> ''city'' \<in> set (columns traffic_df)
    \<longrightarrow> (\<exists>out. merge_with_traffic delivery_df traffic_df = Inr out
          \<and> length (rows out) =
              sum_list (map (\<lambda>l.
                  max 1 (length (filter (\<lambda>t. city t = source_city l) (rows traffic_df)))
                  * max 1 (length (filter (\<lambda>t. city t = destination_city l)
                                     (rows traffic_df))))
                (rows delivery_df))
          \<and> length (rows delivery_df) \<le> length (rows out)
          \<and> (\<forall>l \<in> set (rows delivery_df). \<exists>r \<in> set (rows out).
                scored_row.truncate r = l
              \<and> (source_city l \<notin> city ` set (rows traffic_df) \<longrightarrow>
                   city_source r = None \<and> traffic_congestion_score_source r = NaN
                 \<and> avg_speed_source r = NaN \<and> weather_warning_source r = None)
              \<and> (destination_city l \<notin> city ` set (rows traffic_df) \<longrightarrow>
                   city_dest r = None \<and> traffic_congestion_score_dest r = NaN
                 \<and> avg_speed_dest r = NaN \<and> weather_warning_dest r = None))
          \<and> (distinct (map city (rows traffic_df)) \<longrightarrow>
                length (rows out) = length (rows delivery_df)
              \<and> map scored_row.truncate (rows out) = rows delivery_df)))
   \<and> (\<not> (''source_city'' \<in> set (columns delivery_df)
          \<and> ''destination_city'' \<in> set (columns delivery_df)
          \<and> ''city'' \<in> set (columns traffic_df))
      \<longrightarrow> merge_with_traffic delivery_df traffic_df = Inl KeyError)"
proof (intro conjI impI)
  assume "\<not> (''source_city'' \<in> set (columns delivery_df)
          \<and> ''destination_city'' \<in> set (columns delivery_df)
          \<and> ''city'' \<in> set (columns traffic_df))"
  with merge_with_traffic_Inr_iff[of delivery_df traffic_df]
  have "\<nexists>out. merge_with_traffic delivery_df traffic_df = Inr out" by blast
  then obtain e where "merge_with_traffic delivery_df traffic_df = Inl e"
    by (cases "merge_with_traffic delivery_df traffic_df") auto
  with merge_with_traffic_Inl[OF this] show "merge_with_traffic delivery_df traffic_df = Inl KeyError"
    by simp
next
  assume "set (columns delivery_df) \<subseteq> set (scored_columns delivery_columns)
      \<and> ''source_city'' \<in> set (columns delivery_df)
      \<and> ''destination_city'' \<in> set (columns delivery_df)
      \<and> ''city'' \<in> set (columns traffic_df)"
  with merge_with_traffic_Inr_iff[of delivery_df traffic_df]
  obtain out where out: "merge_with_traffic delivery_df traffic_df = Inr out" by blast
  let ?d = "rows delivery_df" and ?t = "rows traffic_df"
  note R = merge_with_traffic_Inr(1)[OF out]
  have len: "length (rows out) =
              sum_list (map (\<lambda>l.
                  max 1 (length (filter (\<lambda>t. city t = source_city l) ?t))
                  * max 1 (length (filter (\<lambda>t. city t = destination_city l) ?t))) ?d)"
    unfolding R by (rule length_joined_rows)
  have ge: "length ?d \<le> length (rows out)"
    unfolding R by (rule order_trans[OF length_merge_left_ge length_merge_left_ge])
  have keep: "\<exists>r \<in> set (rows out).
                scored_row.truncate r = l
              \<and> (source_city l \<notin> city ` set ?t \<longrightarrow>
                   city_source r = None \<and> traffic_congestion_score_source r = NaN
                 \<and> avg_speed_source r = NaN \<and> weather_warning_source r = None)
              \<and> (destination_city l \<notin> city ` set ?t \<longrightarrow>
                   city_dest r = None \<and> traffic_congestion_score_dest r = NaN
                 \<and> avg_speed_dest r = NaN \<and> weather_warning_dest r = None)"
    if l: "l \<in> set ?d" for l
  proof -
    from merge_left_retains[OF l, of with_source source_city city ?t]
    obtain m where m: "with_source l m \<in> set (merge_left source_city city with_source ?d ?t)"
      and m0: "source_city l \<notin> city ` set ?t \<longrightarrow> m = None"
      by blast
    from merge_left_retains[OF m, of with_dest destination_city city ?t]
    obtain m' where m': "with_dest (with_source l m) m' \<in> set (rows out)"
      and m0': "destination_city l \<notin> city ` set ?t \<longrightarrow> m' = None"
      unfolding R by auto
    show ?thesis
      using m0 m0' by (intro bexI[OF _ m']) simp
  qed
  have uniq: "length (rows out) = length ?d \<and> map scored_row.truncate (rows out) = ?d"
    if d: "distinct (map city ?t)"
  proof -
    have eq: "rows out =
        map (\<lambda>s. with_dest s (find (\<lambda>r. city r = destination_city s) ?t))
          (map (\<lambda>l. with_source l (find (\<lambda>r. city r = source_city l) ?t)) ?d)"
      unfolding R merge_left_distinct[OF d] ..
    show ?thesis unfolding eq by (simp add: o_def)
  qed
  from out len ge keep uniq
  show "\<exists>out. merge_with_traffic delivery_df traffic_df = Inr out
          \<and> length (rows out) =
              sum_list (map (\<lambda>l.
                  max 1 (length (filter (\<lambda>t. city t = source_city l) (rows traffic_df)))
                  * max 1 (length (filter (\<lambda>t. city t = destination_city l)
                                     (rows traffic_df))))
                (rows delivery_df))
          \<and> length (rows delivery_df) \<le> length (rows out)
          \<and> (\<forall>l \<in> set (rows delivery_df). \<exists>r \<in> set (rows out).
                scored_row.truncate r = l
              \<and> (source_city l \<notin> city ` set (rows traffic_df) \<longrightarrow>
                   city_source r = None \<and> traffic_congestion_score_source r = NaN
                 \<and> avg_speed_source r = NaN \<and> weather_warning_source r = None)
              \<and> (destination_city l \<notin> city ` set (rows traffic_df) \<longrightarrow>
                   city_dest r = None \<and> traffic_congestion_score_dest r = NaN
                 \<and> avg_speed_dest r = NaN \<and> weather_warning_dest r = None))
          \<and> (distinct (map city (rows traffic_df)) \<longrightarrow>
                length (rows out) = length (rows delivery_df)
              \<and> map scored_row.truncate (rows out) = rows delivery_df)"
    by blast
qed

theorem join_keeps_every_delivery_row_witness:
  "set (columns scored_fallback) \<subseteq> set (scored_columns delivery_columns)
   \<and> ''source_city'' \<in> set (columns scored_fallback)
   \<and> ''destination_city'' \<in> set (columns scored_fallback)
   \<and> ''city'' \<in> set (columns fallback_traffic_data)
   \<and> distinct (map city (rows fallback_traffic_data))
   \<and> source_city scored_SH002 \<notin> city ` set (rows fallback_traffic_data)
   \<and> map_sum id (map scored_row.truncate \<circ> rows)
        (merge_with_traffic scored_fallback fallback_traffic_data) = Inr [scored_SH002]
   \<and> map_sum id (map avg_speed_source \<circ> rows)
        (merge_with_traffic scored_fallback fallback_traffic_data) = Inr [NaN]"
proof -
  have k: "set (columns scored_fallback) \<subseteq> set (scored_columns delivery_columns)
      \<and> ''source_city'' \<in> set (columns scored_fallback)
      \<and> ''destination_city'' \<in> set (columns scored_fallback)
      \<and> ''city'' \<in> set (columns fallback_traffic_data)"
    by (simp add: fixture_defs scored_columns_def set_col_def)
  have d: "distinct (map city (rows fallback_traffic_data))"
    by (simp add: fixture_defs)
  have u: "source_city scored_SH002 \<notin> city ` set (rows fallback_traffic_data)"
    by (simp add: fixture_defs)
  have r: "rows scored_fallback = [scored_SH002]"
    by (simp add: scored_fallback_def)
  from join_keeps_every_delivery_row[of scored_fallback fallback_traffic_data] k
  obtain out where out: "merge_with_traffic scored_fallback fallback_traffic_data = Inr out"
    and keep: "\<forall>l \<in> set (rows scored_fallback). \<exists>r \<in> set (rows out).
                scored_row.truncate r = l
              \<and> (source_city l \<notin> city ` set (rows fallback_traffic_data) \<longrightarrow>
                   city_source r = None \<and> traffic_congestion_score_source r = NaN
                 \<and> avg_speed_source r = NaN \<and> weather_warning_source r = None)
              \<and> (destination_city l \<notin> city ` set (rows fallback_traffic_data) \<longrightarrow>
                   city_dest r = None \<and> traffic_congestion_score_dest r = NaN
                 \<and> avg_speed_dest r = NaN \<and> weather_warning_dest r = None)"
    and uniq: "distinct (map city (rows fallback_traffic_data)) \<longrightarrow>
                length (rows out) = length (rows scored_fallback)
              \<and> map scored_row.truncate (rows out) = rows scored_fallback"
    by blast
  from uniq d r have len: "length (rows out) = 1"
    and tr: "map scored_row.truncate (rows out) = [scored_SH002]"
    by simp_all
  from len obtain j where j: "rows out = [j]"
    by (auto simp: length_Suc_conv)
  from keep r u j have "avg_speed_source j = NaN"
    by auto
  with k d u out tr j show ?thesis by simp
qed

text \<open>
  Claim C4 as stated (the same number of rows for every traffic frame) fails when a
  city occurs twice in the traffic frame: the scored row of SH002, which is all that
  the first three stages leave of the fallback deliveries, joined with the fallback
  traffic rows listed twice gives two rows.
\<close>

theorem join_row_count_counterexample:
  "compute_agent_score (classify_delay (clean_delivery_data id fallback_delivery_data))
     = Inr (rows scored_fallback)
   \<and> columns scored_fallback = scored_columns (columns fallback_delivery_data)
   \<and> length (rows scored_fallback) = 1
   \<and> map_sum id (length \<circ> rows) (merge_with_traffic scored_fallback doubled_traffic_data)
     = Inr 2"
  by (simp add: fixture_defs stage_defs row_defs cut_defs)

subsection \<open>Rows kept through the stages\<close>

lemma compute_agent_score_retains:
  assumes "compute_agent_score df = Inr out" and "c \<in> set df"
  shows "\<exists>l \<in> set out. classified_row.truncate l = c
           \<and> cut score_bins score_labels (delay_minutes c) = Some (agent_score l)"
proof -
  from assms(1) obtain scores where
    sc: "map (\<lambda>r. cut score_bins score_labels (delay_minutes r)) df = map Some scores"
    and out: "out = map (\<lambda>(r, s). classified_row.extend r (scored_row.fields s)) (zip df scores)"
    by (auto simp: compute_agent_score_def astype_int_Inr_iff split: sum.splits)
  from sc have len: "length scores = length df"
    by (metis length_map)
  from assms(2) obtain i where i: "i < length df" "df ! i = c"
    by (auto simp: in_set_conv_nth)
  let ?l = "classified_row.extend c (scored_row.fields (scores ! i))"
  from i len have "(c, scores ! i) \<in> set (zip df scores)"
    by (auto simp: set_zip)
  then have "?l \<in> set out" unfolding out by force
  moreover from sc i len have "cut score_bins score_labels (delay_minutes c) = Some (scores ! i)"
    by (metis nth_map)
  moreover have "classified_row.truncate ?l = c" "agent_score ?l = scores ! i"
    by (simp_all add: row_defs)
  ultimately show ?thesis by auto
qed

lemma truncate_sel:
  "shipment_id (scored_row.truncate r) = shipment_id r"
  "delay_minutes (scored_row.truncate r) = delay_minutes r"
  "package_weight_kg (scored_row.truncate r) = package_weight_kg r"
  "package_weight (scored_row.truncate r) = package_weight r"
  "agent_score (scored_row.truncate r) = agent_score r"
  "shipment_id (classified_row.truncate l) = shipment_id l"
  "delay_minutes (classified_row.truncate l) = delay_minutes l"
  "package_weight_kg (classified_row.truncate l) = package_weight_kg l"
  "package_weight (classified_row.truncate l) = package_weight l"
  by (simp_all add: row_defs)

lemma joined_rows_retains:
  assumes "l \<in> set d"
  shows "\<exists>r \<in> set (joined_rows d t). scored_row.truncate r = l"
proof -
  from merge_left_retains[OF assms, of with_source source_city city t]
  obtain m where m: "with_source l m \<in> set (merge_left source_city city with_source d t)"
    by blast
  from merge_left_retains[OF m, of with_dest destination_city city t]
  obtain m' where "with_dest (with_source l m) m' \<in> set (joined_rows d t)"
    by auto
  then show ?thesis by (intro bexI[of _ "with_dest (with_source l m) m'"]) simp_all
qed

lemma transform_stages_retains:
  assumes "transform_stages f df t = Inr out" and "x \<in> set (rows df)"
    and "coerce_col f (columns df) ''actual_delivery_time'' (actual_delivery_time x) = Some a"
    and "coerce_col f (columns df) ''expected_delivery_time'' (expected_delivery_time x) = Some e"
  shows "\<exists>r \<in> set out. shipment_id r = shipment_id x
         \<and> delay_minutes r = Fin (real_of_int (a - e) / 1000000000 / 60)
         \<and> package_weight r = package_weight x
         \<and> package_weight_kg r =
             (if ''package_weight'' \<in> set (columns df) then package_weight x else Fin 0)"
proof -
  from transform_stages_out[OF assms(1)] obtain sc J where
    sc: "compute_agent_score (classify_delay (clean_delivery_data f df)) = Inr sc"
    and J: "rows J = joined_rows sc (rows t)" and fe: "feature_engineering J = Inr out"
    by blast
  note out = feature_engineering_Inr[OF fe]
  let ?k = "add_weight_kg (columns df) (compute_delay (coerce_timestamps f (columns df) x))"
  let ?c = "clean_row.extend ?k (classified_row.fields (cut delay_bins delay_labels (delay_minutes ?k)))"
  have "?k \<in> set (clean_delivery_data f df)"
    unfolding clean_delivery_data_alt using assms(2,3,4) by auto
  then have "?c \<in> set (classify_delay (clean_delivery_data f df))"
    unfolding classify_delay_def set_map by (rule imageI)
  from compute_agent_score_retains[OF sc this] obtain l where
    l: "l \<in> set sc" and lc: "classified_row.truncate l = ?c"
    by blast
  from joined_rows_retains[OF l] obtain j where
    j: "j \<in> set (joined_rows sc (rows t))" and jl: "scored_row.truncate j = l"
    by blast
  have r: "engineer_row j \<in> set out"
    unfolding out J using j by simp
  have "shipment_id l = shipment_id ?c" "delay_minutes l = delay_minutes ?c"
    "package_weight l = package_weight ?c" "package_weight_kg l = package_weight_kg ?c"
    unfolding lc[symmetric] by (simp_all only: truncate_sel)
  moreover have "shipment_id j = shipment_id l" "delay_minutes j = delay_minutes l"
    "package_weight j = package_weight l" "package_weight_kg j = package_weight_kg l"
    unfolding jl[symmetric] by (simp_all only: truncate_sel)
  moreover have "shipment_id ?c = shipment_id x"
    "delay_minutes ?c = Fin (real_of_int (a - e) / 1000000000 / 60)"
    "package_weight ?c = package_weight x"
    "package_weight_kg ?c = (if ''package_weight'' \<in> set (columns df) then package_weight x else Fin 0)"
    using assms(3,4) by (simp_all add: row_defs delay_value get_package_weight_def add_weight_kg_def compute_delay_def coerce_timestamps_def)
  ultimately show ?thesis
    using r by (intro bexI[OF _ r]) simp
qed

subsection \<open>Columns of the joined frame\<close>








subsection \<open>Labels and scores\<close>


lemma cut_NaN: "cut bins labels NaN = None"
  by (simp add: cut_def)

lemma agent_score_range:
  assumes "cut score_bins score_labels d = Some s"
  shows "1 \<le> s \<and> s \<le> 5"
proof (cases d)
  case (Fin x)
  with assms show ?thesis by (auto simp: agent_score_fin split: if_splits)
qed (use assms in \<open>simp_all add: cut_defs\<close>)

subsection \<open>Traffic impact of a city without a traffic row\<close>

text \<open>
  Claim C5 says that every row of the feature stage has a defined, non-negative traffic
  impact score and a defined traffic risk level, also when a city has no traffic row.
  The code fills a missing congestion with 0 but leaves a missing speed as it is, so
  the quotient of that side is NaN. On the fallback data of extract.py the only row
  that survives cleaning is SH002, from Delhi, which has no traffic row: its traffic
  impact score is NaN and its traffic risk level is missing.
\<close>

theorem unmatched_city_leaves_traffic_impact_undefined:
  "map_sum id (map shipment_id)
     (transform_stages id fallback_delivery_data fallback_traffic_data) = Inr [''SH002'']
   \<and> map_sum id (map city_source)
     (transform_stages id fallback_delivery_data fallback_traffic_data) = Inr [None]
   \<and> map_sum id (map traffic_impact_score)
     (transform_stages id fallback_delivery_data fallback_traffic_data) = Inr [NaN]
   \<and> map_sum id (map traffic_risk_level)
     (transform_stages id fallback_delivery_data fallback_traffic_data) = Inr [None]"
  by (simp add: fixture_defs stage_defs row_defs cut_defs)

subsection \<open>Delivery efficiency index\<close>

text \<open>
  Claim C6, as the code has it. For every output row the delivery efficiency index is
  the weight divided by the delay plus one, times the agent score, and the agent score
  is positive. For a finite weight and a finite delay other than -1 it is the finite
  number \<open>w / (d + 1) * score\<close>; it is non-negative when the weight is non-negative
  and the delay is above -1, and negative when the weight is positive and the delay is
  below -1 (a delivery more than one minute early).
\<close>

theorem efficiency_index_formula_and_sign:
  assumes "transform_stages to_datetime df traffic_df = Inr out" and "r \<in> set out"
  shows "delivery_efficiency_index r =
           fl_mul (fl_div (package_weight_kg r) (fl_add (delay_minutes r) (Fin 1)))
                  (Fin (real_of_int (agent_score r)))
       \<and> 1 \<le> agent_score r \<and> agent_score r \<le> 5
       \<and> (\<forall>w d. package_weight_kg r = Fin w \<and> delay_minutes r = Fin d \<longrightarrow>
             (d \<noteq> - 1 \<longrightarrow>
                delivery_efficiency_index r = Fin (w / (d + 1) * real_of_int (agent_score r)))
           \<and> (0 \<le> w \<and> - 1 < d \<longrightarrow>
                (\<exists>x. delivery_efficiency_index r = Fin x \<and> 0 \<le> x))
           \<and> (0 < w \<and> d < - 1 \<longrightarrow>
                (\<exists>x. delivery_efficiency_index r = Fin x \<and> x < 0)))"
proof (intro conjI allI impI)
  from transform_stages_out[OF assms(1)] obtain J where J: "feature_engineering J = Inr out"
    by blast
  show f: "delivery_efficiency_index r =
           fl_mul (fl_div (package_weight_kg r) (fl_add (delay_minutes r) (Fin 1)))
                  (Fin (real_of_int (agent_score r)))"
    by (rule feature_row_values(3)[OF J assms(2)])
  from transform_stages_row[OF assms] have
    "cut score_bins score_labels (delay_minutes r) = Some (agent_score r)"
    by blast
  from agent_score_range[OF this] show "1 \<le> agent_score r" and "agent_score r \<le> 5"
    by simp_all
  then have s: "0 < real_of_int (agent_score r)"
    by simp
  fix w d
  assume wd: "package_weight_kg r = Fin w \<and> delay_minutes r = Fin d"
  {
    assume "d \<noteq> - 1"
    then have "d + 1 \<noteq> 0" by linarith
    with wd show "delivery_efficiency_index r = Fin (w / (d + 1) * real_of_int (agent_score r))"
      unfolding f by simp
  }
  {
    assume h: "0 \<le> w \<and> - 1 < d"
    then have "d + 1 \<noteq> 0" "0 \<le> w / (d + 1) * real_of_int (agent_score r)"
      using s by simp_all
    with wd show "\<exists>x. delivery_efficiency_index r = Fin x \<and> 0 \<le> x"
      unfolding f by simp
  }
  {
    assume h: "0 < w \<and> d < - 1"
    then have "d + 1 < 0" by linarith
    with h have "w / (d + 1) < 0"
      by (simp add: divide_pos_neg)
    from mult_neg_pos[OF this s] have "w / (d + 1) * real_of_int (agent_score r) < 0" .
    with wd \<open>d + 1 < 0\<close> show "\<exists>x. delivery_efficiency_index r = Fin x \<and> x < 0"
      unfolding f by simp
  }
qed

theorem efficiency_index_formula_and_sign_witness:
  "map_sum id (map delivery_efficiency_index)
     (transform_stages id fallback_delivery_data fallback_traffic_data)
     = Inr [Fin (78 / 10 / (70 + 1) * 2)]
   \<and> (0 :: real) \<le> 78 / 10 / (70 + 1) * 2"
proof -
  let ?run = "transform_stages id fallback_delivery_data fallback_traffic_data"
  have "\<exists>out. ?run = Inr out \<and> map package_weight_kg out = [Fin (78 / 10)]
          \<and> map delay_minutes out = [Fin 70] \<and> map agent_score out = [2]"
    by (simp add: fixture_defs stage_defs row_defs cut_defs)
  then obtain out where ev: "?run = Inr out"
    and cols: "map package_weight_kg out = [Fin (78 / 10)]"
      "map delay_minutes out = [Fin 70]" "map agent_score out = [2]"
    by (elim exE conjE)
  from cols obtain r where out: "out = [r]"
    and r: "package_weight_kg r = Fin (78 / 10)" "delay_minutes r = Fin 70" "agent_score r = 2"
    by (auto simp: map_eq_Cons_conv)
  have "r \<in> set out" using out by simp
  from efficiency_index_formula_and_sign[OF ev this] r
  have "delivery_efficiency_index r = Fin (78 / 10 / (70 + 1) * 2)"
    by simp
  with ev out show ?thesis by simp
qed

text \<open>
  Claim C6 as stated fails twice: a shipment of weight 5 delivered ten minutes early
  has the negative index -25/9, and a shipment delivered one minute early has a delay
  of exactly -1.
\<close>

theorem efficiency_index_sign_counterexample:
  "map_sum id (map package_weight_kg)
     (transform_stages id (delivered_after (- 10) (Fin 5)) fallback_traffic_data) = Inr [Fin 5]
   \<and> map_sum id (map delay_minutes)
     (transform_stages id (delivered_after (- 10) (Fin 5)) fallback_traffic_data)
       = Inr [Fin (- 10)]
   \<and> map_sum id (map delivery_efficiency_index)
     (transform_stages id (delivered_after (- 10) (Fin 5)) fallback_traffic_data)
       = Inr [Fin (- 25 / 9)]
   \<and> \<not> (0 :: real) \<le> - 25 / 9
   \<and> map_sum id (map delay_minutes)
     (transform_stages id (delivered_after (- 1) (Fin 5)) fallback_traffic_data)
       = Inr [Fin (- 1)]"
  by (simp add: fixture_defs stage_defs row_defs cut_defs)



subsection \<open>A missing weight\<close>

text \<open>
  Claim C10. The weight is defaulted to 0 only when the frame has no
  \<open>package_weight\<close> column. When it has the column, the weight in kilograms is the
  cell of that column, also when the cell is missing (NaN): the row is kept (the filter
  looks at the two timestamps only), and its delivery efficiency index is NaN and its
  predicted delay risk level is missing.
\<close>

theorem missing_weight_value_is_kept:
  assumes "transform_stages to_datetime df traffic_df = Inr out"
  shows "(\<forall>r \<in> set out.
            (''package_weight'' \<notin> set (columns df) \<longrightarrow> package_weight_kg r = Fin 0)
          \<and> (''package_weight'' \<in> set (columns df) \<longrightarrow> package_weight_kg r = package_weight r)
          \<and> (package_weight_kg r = NaN \<longrightarrow>
                delivery_efficiency_index r = NaN \<and> predicted_delay_risk_level r = None))
       \<and> (\<forall>x \<in> set (rows df).
            ''package_weight'' \<in> set (columns df) \<and> package_weight x = NaN
          \<and> coerce_col to_datetime (columns df) ''actual_delivery_time''
                (actual_delivery_time x) \<noteq> NaT
          \<and> coerce_col to_datetime (columns df) ''expected_delivery_time''
                (expected_delivery_time x) \<noteq> NaT
          \<longrightarrow> (\<exists>r \<in> set out. shipment_id r = shipment_id x \<and> package_weight_kg r = NaN
                 \<and> delivery_efficiency_index r = NaN \<and> predicted_delay_risk_level r = None))"
proof -
  have nan: "delivery_efficiency_index r = NaN \<and> predicted_delay_risk_level r = None"
    if r: "r \<in> set out" and w: "package_weight_kg r = NaN" for r
  proof -
    from transform_stages_out[OF assms] obtain J where J: "feature_engineering J = Inr out"
      by blast
    have i: "delivery_efficiency_index r = NaN"
      unfolding feature_row_values(3)[OF J r] w by simp
    show ?thesis
      unfolding feature_row_values(4)[OF J r] i by (simp add: cut_NaN)
  qed
  have a: "(''package_weight'' \<notin> set (columns df) \<longrightarrow> package_weight_kg r = Fin 0)
          \<and> (''package_weight'' \<in> set (columns df) \<longrightarrow> package_weight_kg r = package_weight r)
          \<and> (package_weight_kg r = NaN \<longrightarrow>
                delivery_efficiency_index r = NaN \<and> predicted_delay_risk_level r = None)"
    if r: "r \<in> set out" for r
    using transform_stages_row[OF assms r] nan[OF r] by auto
  have b: "\<exists>r \<in> set out. shipment_id r = shipment_id x \<and> package_weight_kg r = NaN
                 \<and> delivery_efficiency_index r = NaN \<and> predicted_delay_risk_level r = None"
    if x: "x \<in> set (rows df)"
      and h: "''package_weight'' \<in> set (columns df) \<and> package_weight x = NaN
          \<and> coerce_col to_datetime (columns df) ''actual_delivery_time''
                (actual_delivery_time x) \<noteq> NaT
          \<and> coerce_col to_datetime (columns df) ''expected_delivery_time''
                (expected_delivery_time x) \<noteq> NaT" for x
  proof -
    from h obtain a e where
      "coerce_col to_datetime (columns df) ''actual_delivery_time'' (actual_delivery_time x) = Some a"
      "coerce_col to_datetime (columns df) ''expected_delivery_time'' (expected_delivery_time x) = Some e"
      by auto
    from transform_stages_retains[OF assms x this] h obtain r where
      r: "r \<in> set out" and "shipment_id r = shipment_id x" "package_weight_kg r = NaN"
      by auto
    with nan[OF r] show ?thesis by blast
  qed
  from a b show ?thesis by blast
qed

theorem missing_weight_value_is_kept_witness:
  "map_sum id (map package_weight_kg)
     (transform_stages id (delivered_after 70 NaN) fallback_traffic_data) = Inr [NaN]
   \<and> map_sum id (map delivery_efficiency_index)
     (transform_stages id (delivered_after 70 NaN) fallback_traffic_data) = Inr [NaN]
   \<and> map_sum id (map predicted_delay_risk_level)
     (transform_stages id (delivered_after 70 NaN) fallback_traffic_data) = Inr [None]
   \<and> map_sum id (map package_weight_kg)
     (transform_stages id
        ((delivered_after 70 NaN)\<lparr>columns := remove1 ''package_weight'' delivery_columns\<rparr>)
        fallback_traffic_data) = Inr [Fin 0]"
proof -
  let ?df = "delivered_after 70 NaN"
  let ?df' = "?df\<lparr>columns := remove1 ''package_weight'' delivery_columns\<rparr>"
  have "\<exists>out. transform_stages id ?df fallback_traffic_data = Inr out \<and> length out = 1"
    by (simp add: fixture_defs stage_defs row_defs cut_defs)
  then obtain out r where ev: "transform_stages id ?df fallback_traffic_data = Inr out"
    and out: "out = [r]"
    by (auto simp: length_Suc_conv)
  have "\<exists>out. transform_stages id ?df' fallback_traffic_data = Inr out \<and> length out = 1"
    by (simp add: fixture_defs stage_defs row_defs cut_defs)
  then obtain out' r' where ev': "transform_stages id ?df' fallback_traffic_data = Inr out'"
    and out': "out' = [r']"
    by (auto simp: length_Suc_conv)
  have x: "SH002_after 70 NaN \<in> set (rows ?df)"
    by (simp add: delivered_after_def)
  have h: "''package_weight'' \<in> set (columns ?df) \<and> package_weight (SH002_after 70 NaN) = NaN
          \<and> coerce_col id (columns ?df) ''actual_delivery_time''
                (actual_delivery_time (SH002_after 70 NaN)) \<noteq> NaT
          \<and> coerce_col id (columns ?df) ''expected_delivery_time''
                (expected_delivery_time (SH002_after 70 NaN)) \<noteq> NaT"
    by (simp add: fixture_defs coerce_col_def)
  from missing_weight_value_is_kept[OF ev] x h out
  have "package_weight_kg r = NaN \<and> delivery_efficiency_index r = NaN
        \<and> predicted_delay_risk_level r = None"
    by auto
  moreover have "''package_weight'' \<notin> set (columns ?df')"
    by (simp add: fixture_defs)
  with missing_weight_value_is_kept[OF ev'] out' have "package_weight_kg r' = Fin 0"
    by auto
  ultimately show ?thesis
    using ev out ev' out' by simp
qed

subsection \<open>The run as a whole\<close>

lemma load_latest_file_missing:
  "filter (glob_match keyword) folder = [] \<Longrightarrow>
     load_latest_file folder keyword read = Inl (FileNotFoundError keyword)"
  by (simp add: load_latest_file_def)

lemma load_latest_file_found:
  assumes "filter (glob_match keyword) folder \<noteq> []"
  shows "\<exists>f \<in> set folder. glob_match keyword f \<and> load_latest_file folder keyword read = Inr (read f)"
proof -
  let ?files = "rev (sort (filter (glob_match keyword) folder))"
  from assms have "?files \<noteq> []"
    by (metis rev_is_Nil_conv length_sort length_0_conv)
  then obtain f fs where fs: "?files = f # fs"
    by (cases ?files) auto
  then have "f \<in> set ?files" by simp
  then have "f \<in> set folder" "glob_match keyword f" by auto
  moreover from fs have "load_latest_file folder keyword read = Inr (read f)"
    by (simp add: load_latest_file_def)
  ultimately show ?thesis by blast
qed

text \<open>
  Claim C7. When the raw folder has no file for the delivery source, or none for the
  traffic source, the run ends with the error FileNotFoundError for that source: no
  stage has run, and the file system, its staged folder included, is as it was.
\<close>

theorem missing_source_is_fatal:
  assumes "filter (glob_match ''live_delivery'') (raw_dir fs) = []
         \<or> filter (glob_match ''route_traffic'') (raw_dir fs) = []"
  shows "(filter (glob_match ''live_delivery'') (raw_dir fs) = [] \<longrightarrow>
            transform_pipeline read_delivery read_traffic to_datetime now fs
              = (Inl (FileNotFoundError ''live_delivery''), fs))
       \<and> (filter (glob_match ''live_delivery'') (raw_dir fs) \<noteq> [] \<longrightarrow>
            transform_pipeline read_delivery read_traffic to_datetime now fs
              = (Inl (FileNotFoundError ''route_traffic''), fs))
       \<and> staged_dir (snd (transform_pipeline read_delivery read_traffic to_datetime now fs))
            = staged_dir fs"
proof -
  have a: "transform_pipeline read_delivery read_traffic to_datetime now fs
              = (Inl (FileNotFoundError ''live_delivery''), fs)"
    if "filter (glob_match ''live_delivery'') (raw_dir fs) = []"
    using load_latest_file_missing[OF that, of read_delivery]
    by (simp add: transform_pipeline_def)
  have b: "transform_pipeline read_delivery read_traffic to_datetime now fs
              = (Inl (FileNotFoundError ''route_traffic''), fs)"
    if d: "filter (glob_match ''live_delivery'') (raw_dir fs) \<noteq> []"
  proof -
    from d assms have t: "filter (glob_match ''route_traffic'') (raw_dir fs) = []"
      by blast
    from load_latest_file_found[OF d, of read_delivery] obtain f where
      "load_latest_file (raw_dir fs) ''live_delivery'' read_delivery = Inr (read_delivery f)"
      by blast
    with load_latest_file_missing[OF t, of read_traffic] show ?thesis
      by (simp add: transform_pipeline_def)
  qed
  from a b show ?thesis
    by (cases "filter (glob_match ''live_delivery'') (raw_dir fs) = []") simp_all
qed

theorem missing_source_is_fatal_witness:
  "filter (glob_match ''route_traffic'')
     (raw_dir \<lparr>raw_dir = [''live_delivery_20250110_080000.json'', ''extract.log''],
              staged_dir = []\<rparr>) = []
   \<and> filter (glob_match ''live_delivery'')
     (raw_dir \<lparr>raw_dir = [''live_delivery_20250110_080000.json'', ''extract.log''],
              staged_dir = []\<rparr>) \<noteq> []
   \<and> transform_pipeline (\<lambda>f. fallback_delivery_data) (\<lambda>f. fallback_traffic_data) id
       ''20250110_090000''
       \<lparr>raw_dir = [''live_delivery_20250110_080000.json'', ''extract.log''], staged_dir = []\<rparr>
     = (Inl (FileNotFoundError ''route_traffic''),
        \<lparr>raw_dir = [''live_delivery_20250110_080000.json'', ''extract.log''],
         staged_dir = []\<rparr>)"
proof -
  let ?fs = "\<lparr>raw_dir = [''live_delivery_20250110_080000.json'', ''extract.log''],
              staged_dir = []\<rparr> :: file_system"
  have t: "filter (glob_match ''route_traffic'') (raw_dir ?fs) = []"
    by (simp add: glob_match_def)
  have d: "filter (glob_match ''live_delivery'') (raw_dir ?fs) \<noteq> []"
    by (simp add: glob_match_def suffix_def)
  from missing_source_is_fatal[OF disjI2[OF t], of "\<lambda>f. fallback_delivery_data"
         "\<lambda>f. fallback_traffic_data" id "''20250110_090000''"] d
  have "transform_pipeline (\<lambda>f. fallback_delivery_data) (\<lambda>f. fallback_traffic_data) id
          ''20250110_090000'' ?fs = (Inl (FileNotFoundError ''route_traffic''), ?fs)"
    by blast
  with t d show ?thesis by blast
qed





end
